theory Spec2Isabelle
  imports Main "HOL-Library.Sublist"
begin

section \<open>Python values used by \<open>cupy_builder/install_build.py\<close>\<close>

text \<open>
  Byte strings and text are both modelled as \<open>string\<close> (a list of 8-bit characters);
  the probe programs and the git commands of this module only print ASCII.
  Every exception the module can raise is a value of \<open>exn\<close>; a function that may raise
  returns \<open>exn + 'a\<close> with \<open>Inl\<close> for the raised exception. \<open>External\<close> stands for
  whatever the compiler object or a child process raises.
\<close>

datatype exn =
    RuntimeError string
  | ValueError string
  | KeyError string
  | IndexError string
  | ReError string
  | AssertionError string
  | UnicodeDecodeError string
  | Exception string
  | External string

text \<open>\<open>str(e)\<close>: the message of an exception (a \<open>KeyError\<close> prints the quoted key).\<close>

fun str_exn :: "exn \<Rightarrow> string" where
  "str_exn (RuntimeError m) = m"
| "str_exn (ValueError m) = m"
| "str_exn (KeyError k) = [CHR 0x27] @ k @ [CHR 0x27]"
| "str_exn (IndexError m) = m"
| "str_exn (ReError m) = m"
| "str_exn (AssertionError m) = m"
| "str_exn (UnicodeDecodeError m) = m"
| "str_exn (Exception m) = m"
| "str_exn (External m) = m"

subsection \<open>\<open>int(...)\<close>, \<open>split\<close>, \<open>startswith\<close>\<close>

text \<open>ASCII whitespace as \<open>bytes.isspace\<close> has it: space, tab, LF, VT, FF, CR.\<close>

definition is_space :: "char \<Rightarrow> bool" where
  "is_space c = (c = CHR '' '' \<or> c = CHR 0x09 \<or> c = CHR 0x0A \<or> c = CHR 0x0B
                 \<or> c = CHR 0x0C \<or> c = CHR 0x0D)"

definition is_digit :: "char \<Rightarrow> bool" where
  "is_digit c = (48 \<le> (of_char c :: nat) \<and> (of_char c :: nat) \<le> 57)"

definition digit_val :: "char \<Rightarrow> nat" where
  "digit_val c = of_char c - 48"

definition strip :: "string \<Rightarrow> string" where
  "strip s = rev (dropWhile is_space (rev (dropWhile is_space s)))"

text \<open>
  The digits of an integer literal after the first one: decimal digits, with single
  underscores allowed between two digits (as \<open>int('1_000')\<close> accepts).
\<close>

fun parse_digits :: "nat \<Rightarrow> string \<Rightarrow> nat option" where
  "parse_digits acc [] = Some acc"
| "parse_digits acc [c] =
     (if is_digit c then Some (acc * 10 + digit_val c) else None)"
| "parse_digits acc (c # d # cs) =
     (if is_digit c then parse_digits (acc * 10 + digit_val c) (d # cs)
      else if c = CHR ''_'' \<and> is_digit d then parse_digits (acc * 10 + digit_val d) cs
      else None)"

definition parse_nat :: "string \<Rightarrow> nat option" where
  "parse_nat s =
     (case s of [] \<Rightarrow> None
      | c # cs \<Rightarrow> if is_digit c then parse_digits (digit_val c) cs else None)"

text \<open>
  \<open>int(s)\<close> for a string or bytes argument: surrounding whitespace is dropped, one sign
  is allowed, the rest must be a decimal literal. \<open>None\<close> stands for \<open>ValueError\<close>.
\<close>

definition py_int :: "string \<Rightarrow> int option" where
  "py_int s =
     (case strip s of
        [] \<Rightarrow> None
      | c # cs \<Rightarrow>
          if c = CHR ''-'' then map_option (\<lambda>n. - int n) (parse_nat cs)
          else if c = CHR ''+'' then map_option int (parse_nat cs)
          else map_option int (parse_nat (c # cs)))"

definition int_of :: "string \<Rightarrow> exn + int" where
  "int_of s = (case py_int s of None \<Rightarrow> Inl (ValueError s) | Some n \<Rightarrow> Inr n)"

text \<open>\<open>s.split(sep)\<close> with a one-character separator: always at least one field.\<close>

fun split_on :: "char \<Rightarrow> string \<Rightarrow> string list" where
  "split_on sep [] = [[]]"
| "split_on sep (c # cs) =
     (if c = sep then [] # split_on sep cs
      else (case split_on sep cs of
              [] \<Rightarrow> [[c]]
            | f # fs \<Rightarrow> (c # f) # fs))"

text \<open>\<open>s.split()\<close> without argument: fields between runs of whitespace, none empty.\<close>

fun split_ws_acc :: "string \<Rightarrow> string \<Rightarrow> string list" where
  "split_ws_acc cur [] = (if cur = [] then [] else [rev cur])"
| "split_ws_acc cur (c # cs) =
     (if is_space c then (if cur = [] then split_ws_acc [] cs
                          else rev cur # split_ws_acc [] cs)
      else split_ws_acc (c # cur) cs)"

definition split_ws :: "string \<Rightarrow> string list" where
  "split_ws s = split_ws_acc [] s"

definition startswith :: "string \<Rightarrow> string \<Rightarrow> bool" where
  "startswith s p = (take (length p) s = p)"

text \<open>\<open>s[:-1]\<close>: everything but the last character (empty stays empty).\<close>

definition drop_last :: "string \<Rightarrow> string" where
  "drop_last s = take (length s - 1) s"

text \<open>\<open>xs[i]\<close> on a list, \<open>IndexError\<close> out of range (indices here are never negative).\<close>

definition item_at :: "'a list \<Rightarrow> nat \<Rightarrow> exn + 'a" where
  "item_at xs i = (if i < length xs then Inr (xs ! i)
                   else Inl (IndexError ''list index out of range''))"

subsection \<open>\<open>re.match\<close> on the pattern fragment the module uses\<close>

text \<open>
  The two diagnostic patterns use \<open>^\<close>, \<open>$\<close>, \<open>.\<close>, literal characters, a backslash
  before a literal, the greedy star on one character, and capture groups. A pattern is
  compiled to a list of instructions; any other construct is outside this fragment and is
  reported as \<open>ReError\<close>.
\<close>

datatype atom = Chr char | Dot

datatype instr = Bol | Eol | One atom | Star atom | GOpen nat | GClose nat

definition rx_special :: "char \<Rightarrow> bool" where
  "rx_special c = (c \<in> set ''*+?{}[]|'')"

fun rx_compile :: "nat \<Rightarrow> nat list \<Rightarrow> string \<Rightarrow> instr list option" where
  "rx_compile n st [] = (if st = [] then Some [] else None)"
| "rx_compile n st (c # cs) =
     (if c = CHR ''^'' then map_option ((#) Bol) (rx_compile n st cs)
      else if c = CHR ''$'' then map_option ((#) Eol) (rx_compile n st cs)
      else if c = CHR ''('' then
        map_option ((#) (GOpen (Suc n))) (rx_compile (Suc n) (Suc n # st) cs)
      else if c = CHR '')'' then
        (case st of [] \<Rightarrow> None
         | k # st' \<Rightarrow> map_option ((#) (GClose k)) (rx_compile n st' cs))
      else if rx_special c then None
      else if c = CHR 0x5C then
        (case cs of [] \<Rightarrow> None
         | d # ds \<Rightarrow>
            if is_digit d \<or> d \<in> set ''abcdefghijklmnopqrstuvwxyzABCDEFGHIJKLMNOPQRSTUVWXYZ''
            then None
            else (case ds of
                    [] \<Rightarrow> map_option ((#) (One (Chr d))) (rx_compile n st [])
                  | e # es \<Rightarrow>
                      if e = CHR ''*'' then map_option ((#) (Star (Chr d))) (rx_compile n st es)
                      else map_option ((#) (One (Chr d))) (rx_compile n st (e # es))))
      else
        (let a = (if c = CHR ''.'' then Dot else Chr c) in
         case cs of
           [] \<Rightarrow> map_option ((#) (One a)) (rx_compile n st [])
         | e # es \<Rightarrow>
             if e = CHR ''*'' then map_option ((#) (Star a)) (rx_compile n st es)
             else map_option ((#) (One a)) (rx_compile n st (e # es))))"

fun atom_ok :: "atom \<Rightarrow> char \<Rightarrow> bool" where
  "atom_ok (Chr c) d = (c = d)"
| "atom_ok Dot d = (d \<noteq> CHR 0x0A)"

text \<open>
  A match object: the whole matched text (\<open>group(0)\<close>) and the text of each closed
  capture group.
\<close>

record rmatch =
  whole :: string
  groups :: "(nat \<times> string) list"

definition match_group :: "rmatch \<Rightarrow> nat \<Rightarrow> string option" where
  "match_group m k = (if k = 0 then Some (whole m) else map_of (groups m) k)"

text \<open>
  The backtracking matcher. \<open>seen\<close> is the consumed text, reversed; \<open>opens\<close> records
  where each open group started. A star first tries one more repetition and only then the
  rest of the pattern, which is the greedy order of \<open>re\<close>.
\<close>

fun rx_run :: "instr list \<Rightarrow> string \<Rightarrow> string \<Rightarrow> (nat \<times> nat) list
                \<Rightarrow> (nat \<times> string) list \<Rightarrow> rmatch option" where
  "rx_run [] seen rest opens caps = Some \<lparr>whole = rev seen, groups = caps\<rparr>"
| "rx_run (Bol # p) seen rest opens caps =
     (if seen = [] then rx_run p seen rest opens caps else None)"
| "rx_run (Eol # p) seen rest opens caps =
     (if rest = [] \<or> rest = [CHR 0x0A] then rx_run p seen rest opens caps else None)"
| "rx_run (One a # p) seen [] opens caps = None"
| "rx_run (One a # p) seen (c # cs) opens caps =
     (if atom_ok a c then rx_run p (c # seen) cs opens caps else None)"
| "rx_run (Star a # p) seen [] opens caps = rx_run p seen [] opens caps"
| "rx_run (Star a # p) seen (c # cs) opens caps =
     (if atom_ok a c then
        (case rx_run (Star a # p) (c # seen) cs opens caps of
           Some m \<Rightarrow> Some m
         | None \<Rightarrow> rx_run p seen (c # cs) opens caps)
      else rx_run p seen (c # cs) opens caps)"
| "rx_run (GOpen k # p) seen rest opens caps =
     rx_run p seen rest ((k, length seen) # opens) caps"
| "rx_run (GClose k # p) seen rest opens caps =
     (case map_of opens k of
        None \<Rightarrow> None
      | Some b \<Rightarrow> rx_run p seen rest opens ((k, drop b (rev seen)) # caps))"

definition re_match :: "string \<Rightarrow> string \<Rightarrow> exn + rmatch option" where
  "re_match pat s =
     (case rx_compile 0 [] pat of
        None \<Rightarrow> Inl (ReError pat)
      | Some prog \<Rightarrow> Inr (rx_run prog [] s [] []))"

section \<open>The diagnostic matcher\<close>

text \<open>
  \<open>_match_output_lines\<close>. The inner \<open>for j ... else\<close> loop: \<open>Inr (True, ms)\<close> when the
  loop ran to its end (the \<open>else\<close> branch), \<open>Inr (False, ms)\<close> after \<open>break\<close>. The list
  \<open>matches\<close> is created once and updated in place, so it is threaded through.
\<close>

fun match_window :: "('r \<Rightarrow> 'l \<Rightarrow> exn + 'm option) \<Rightarrow> 'l list \<Rightarrow> nat \<Rightarrow> nat \<Rightarrow> 'r list
      \<Rightarrow> 'm option list \<Rightarrow> exn + (bool \<times> 'm option list)" where
  "match_window rm output_lines i j [] matches = Inr (True, matches)"
| "match_window rm output_lines i j (r # rs) matches =
     (case item_at output_lines (i + j) of
        Inl e \<Rightarrow> Inl e
      | Inr line \<Rightarrow>
         (case rm r line of
            Inl e \<Rightarrow> Inl e
          | Inr None \<Rightarrow> Inr (False, matches)
          | Inr (Some m) \<Rightarrow>
              match_window rm output_lines i (Suc j) rs (matches[j := Some m])))"

fun scan_windows :: "('r \<Rightarrow> 'l \<Rightarrow> exn + 'm option) \<Rightarrow> 'l list \<Rightarrow> 'r list \<Rightarrow> nat list
      \<Rightarrow> 'm option list \<Rightarrow> exn + 'm option list option" where
  "scan_windows rm output_lines regexs [] matches = Inr None"
| "scan_windows rm output_lines regexs (i # is) matches =
     (case match_window rm output_lines i 0 regexs matches of
        Inl e \<Rightarrow> Inl e
      | Inr (True, ms) \<Rightarrow> Inr (Some ms)
      | Inr (False, ms) \<Rightarrow> scan_windows rm output_lines regexs is ms)"

definition match_output_lines :: "('r \<Rightarrow> 'l \<Rightarrow> exn + 'm option) \<Rightarrow> 'l list \<Rightarrow> 'r list
      \<Rightarrow> exn + 'm option list option" where
  "match_output_lines rm output_lines regexs =
     (if length output_lines < length regexs then Inr None
      else scan_windows rm output_lines regexs
             [0 ..< length output_lines - length regexs]
             (replicate (length regexs) None))"

text \<open>The two patterns of \<open>_get_compiler_base_options\<close>, as the source writes them.\<close>

definition pat_no_host_compiler :: string where
  "pat_no_host_compiler =
     ''^ERROR: No supported gcc/g'' @ [CHR 0x5C] @ ''+'' @ [CHR 0x5C] @
     ''+ host compiler found, but .* is available.$''"

definition pat_use_nvcc :: string where
  "pat_use_nvcc = ''^ *Use 'nvcc (.*)' to use that instead.$''"

section \<open>Text conversions and paths\<close>

text \<open>\<open>b.decode()\<close>: the text is ASCII throughout this model; a byte above 0x7F is reported
  as \<open>UnicodeDecodeError\<close> (multi-byte UTF-8 is outside the model).\<close>

definition decode :: "string \<Rightarrow> exn + string" where
  "decode b = (if list_all (\<lambda>c. (of_char c :: nat) < 128) b then Inr b
               else Inl (UnicodeDecodeError b))"

text \<open>\<open>str(n)\<close> and \<open>'%d' % n\<close> for an integer.\<close>

definition digit_char :: "nat \<Rightarrow> char" where
  "digit_char d = ''0123456789'' ! d"

fun str_nat :: "nat \<Rightarrow> string" where
  "str_nat n = (if n < 10 then [digit_char n]
                else str_nat (n div 10) @ [digit_char (n mod 10)])"

declare str_nat.simps [simp del]

definition str_int :: "int \<Rightarrow> string" where
  "str_int i = (if i < 0 then CHR ''-'' # str_nat (nat (- i)) else str_nat (nat i))"

text \<open>\<open>os.path.join(a, b)\<close> on POSIX.\<close>

definition os_path_join :: "string \<Rightarrow> string \<Rightarrow> string" where
  "os_path_join a b =
     (if b \<noteq> [] \<and> hd b = CHR ''/'' then b
      else if a = [] \<or> last a = CHR ''/'' then a @ b
      else a @ CHR ''/'' # b)"

section \<open>The build environment\<close>

text \<open>
  What the module reads from outside itself: the process environment, the platform, the
  directory \<open>tempfile.mkdtemp()\<close> hands out, and the child processes it starts
  (\<open>subprocess.check_output\<close>, \<open>subprocess.run\<close>, \<open>subprocess.Popen(...).communicate()\<close>).
  \<open>subprocess_run\<close> takes the command line and the working directory; \<open>nvtx_path\<close> is what
  \<open>_environment.get_nvtx_path()\<close> returns; \<open>undeletable\<close> holds the paths the operating system
  refuses to delete (a file still open on Windows, a directory without write permission).
\<close>

record completed =
  returncode :: int
  stdout :: string

record world =
  environ :: "string \<rightharpoonup> string"
  PLATFORM_LINUX :: bool
  PLATFORM_WIN32 :: bool
  machine :: string
  source_root :: string
  nvtx_path :: "string option"
  mkdtemp :: string
  undeletable :: "string set"
  check_output :: "string \<Rightarrow> exn + string"
  subprocess_run :: "string \<Rightarrow> string \<Rightarrow> exn + completed"
  popen_communicate :: "string list \<Rightarrow> exn + (int \<times> string \<times> string)"

text \<open>
  The compiler object (spec section 6): three operations, each of which may raise.
  \<open>compile sources output_dir include_dirs macros extra_postargs\<close> returns the object
  files; the link operations take \<open>objects output_path libraries library_dirs
  extra_postargs\<close>.
\<close>

datatype pyval = PInt int | PStr string

record compiler =
  compile :: "string list \<Rightarrow> string \<Rightarrow> string list \<Rightarrow> (string \<times> pyval) list option
                \<Rightarrow> string list \<Rightarrow> exn + string list"
  link_executable :: "string list \<Rightarrow> string \<Rightarrow> string list \<Rightarrow> string list
                \<Rightarrow> string list \<Rightarrow> exn + unit"
  link_shared_lib :: "string list \<Rightarrow> string \<Rightarrow> string list \<Rightarrow> string list
                \<Rightarrow> string list \<Rightarrow> exn + unit"

text \<open>The settings dictionary built by \<open>get_compiler_setting\<close>.\<close>

record settings =
  include_dirs :: "string list"
  library_dirs :: "string list"
  define_macros :: "(string \<times> pyval) list"
  language :: string
  extra_compile_args :: "string list"

text \<open>
  The file system as far as the module touches it: the directories and files that exist,
  and the history of \<open>mkdtemp\<close> and \<open>rmtree\<close> calls.
\<close>

record fsys =
  dirs :: "string set"
  files :: "string set"
  mkdtemp_calls :: "string list"
  rmtree_calls :: "string list"

text \<open>
  The module's global variables (the caches), the warnings printed so far, and the file
  system. Every cache starts as \<open>None\<close>.
\<close>

record pstate =
  hip_version :: "int option"
  thrust_version :: "int option"
  cudnn_version :: "int option"
  nccl_version :: "int option"
  cutensor_version :: "int option"
  cub_version :: "int option"
  jitify_version :: "pyval option"
  compute_capabilities :: "int set option"
  cusparselt_version :: "int option"
  warnings :: "string list list"
  fs :: fsys

definition module_init :: "fsys \<Rightarrow> pstate" where
  "module_init f =
     \<lparr>hip_version = None, thrust_version = None, cudnn_version = None,
      nccl_version = None, cutensor_version = None, cub_version = None,
      jitify_version = None, compute_capabilities = None, cusparselt_version = None,
      warnings = [], fs = f\<rparr>"

definition minimum_cudnn_version :: int where
  "minimum_cudnn_version = 7600"

definition minimum_hip_version :: int where
  "minimum_hip_version = 305"

text \<open>
  Modelled from the spec: \<open>utils.print_warning\<close> (in \<open>cupy_builder.install_utils\<close>, not
  part of the sources) logs its lines as one warning.
\<close>

definition print_warning :: "string list \<Rightarrow> pstate \<Rightarrow> pstate" where
  "print_warning lines st = st\<lparr>warnings := warnings st @ [lines]\<rparr>"

section \<open>Workspace and build-and-run\<close>

text \<open>
  \<open>_tempdir\<close>: \<open>mkdtemp\<close>, the body, and \<open>shutil.rmtree(temp_dir, ignore_errors=True)\<close> in
  the \<open>finally\<close> clause, which runs whether the body returned or raised. With
  \<open>ignore_errors=True\<close> a failing removal raises nothing: \<open>rmtree\<close> deletes what it can and
  leaves the rest. A file below the directory stays when the operating system refuses to
  delete it, and the directory itself stays when it is refused or when a file stayed in it.
\<close>

definition under :: "string \<Rightarrow> string \<Rightarrow> bool" where
  "under d p = prefix (os_path_join d []) p"

definition rmtree :: "world \<Rightarrow> string \<Rightarrow> fsys \<Rightarrow> fsys" where
  "rmtree w d f =
     (let left = Set.filter (\<lambda>p. under d p \<and> p \<in> undeletable w) (files f)
      in f\<lparr>dirs := (if d \<in> undeletable w \<or> left \<noteq> {} then dirs f else dirs f - {d}),
           files := Set.filter (\<lambda>p. \<not> under d p \<or> p \<in> undeletable w) (files f),
           rmtree_calls := rmtree_calls f @ [d]\<rparr>)"

definition tempdir :: "world \<Rightarrow> (string \<Rightarrow> fsys \<Rightarrow> (exn + 'a) \<times> fsys) \<Rightarrow> fsys
      \<Rightarrow> (exn + 'a) \<times> fsys" where
  "tempdir w body f =
     (let temp_dir = mkdtemp w;
          f1 = f\<lparr>dirs := insert temp_dir (dirs f),
                 mkdtemp_calls := mkdtemp_calls f @ [temp_dir]\<rparr>;
          (r, f2) = body temp_dir f1
      in (r, rmtree w temp_dir f2))"

definition write_file :: "string \<Rightarrow> fsys \<Rightarrow> fsys" where
  "write_file p f = f\<lparr>files := insert p (files f)\<rparr>"

definition environ_get :: "world \<Rightarrow> string \<Rightarrow> string \<Rightarrow> string" where
  "environ_get w k d = (case environ w k of None \<Rightarrow> d | Some v \<Rightarrow> v)"

definition environ_item :: "world \<Rightarrow> string \<Rightarrow> exn + string" where
  "environ_item w k = (case environ w k of None \<Rightarrow> Inl (KeyError k) | Some v \<Rightarrow> Inr v)"

definition conda_get_target_name :: "world \<Rightarrow> exn + string" where
  "conda_get_target_name w =
     (if PLATFORM_LINUX w then
        (if machine w = ''aarch64'' then Inr ''sbsa-linux''
         else Inr (machine w @ ''-linux''))
      else if PLATFORM_WIN32 w then Inr ''x64''
      else Inl (AssertionError []))"

text \<open>
  \<open>conda_update_dirs\<close>, in its two \<open>if\<close> blocks. Every \<open>os.environ[...]\<close> of the source is
  an \<open>environ_item\<close> here, so a missing variable is the \<open>KeyError\<close> it raises.
\<close>

definition conda_cross_dirs :: "world \<Rightarrow> string list \<Rightarrow> string list
      \<Rightarrow> exn + (string list \<times> string list)" where
  "conda_cross_dirs w incs libs =
     (case (case environ w ''CONDA_BUILD_CROSS_COMPILATION'' of
              None \<Rightarrow> Inr 0 | Some v \<Rightarrow> int_of v) of
        Inl e \<Rightarrow> Inl e
      | Inr cross \<Rightarrow>
          if cross = 1 then
            (case (if startswith (environ_get w ''CONDA_OVERRIDE_CUDA'' ''0'') ''12'' then
                     (case environ_item w ''BUILD_PREFIX'' of
                        Inl e \<Rightarrow> Inl e
                      | Inr bp \<Rightarrow>
                          Inr ((bp @ ''/targets/x86_64-linux/include'') # incs,
                               (bp @ ''/lib/stubs'')
                                 # (bp @ ''/targets/x86_64-linux/lib'') # libs))
                   else if startswith (environ_get w ''CONDA_OVERRIDE_CUDA'' ''0'') ''11'' then
                     Inr (incs @ [''/usr/local/cuda/include''],
                          libs @ [''/usr/local/cuda/lib64/stubs''])
                   else Inr (incs, libs)) of
               Inl e \<Rightarrow> Inl e
             | Inr (incs1, libs1) \<Rightarrow>
                 (case environ_item w ''BUILD_PREFIX'' of
                    Inl e \<Rightarrow> Inl e
                  | Inr bp \<Rightarrow> Inr (incs1 @ [bp @ ''/include''], libs1 @ [bp @ ''/lib''])))
          else Inr (incs, libs))"

definition conda_cuda12_dirs :: "world \<Rightarrow> string list \<Rightarrow> string list
      \<Rightarrow> exn + (string list \<times> string list)" where
  "conda_cuda12_dirs w incs libs =
     (if startswith (environ_get w ''CONDA_OVERRIDE_CUDA'' ''0'') ''12'' then
        (if PLATFORM_LINUX w then
           (case environ_item w ''BUILD_PREFIX'' of
              Inl e \<Rightarrow> Inl e
            | Inr bp \<Rightarrow>
               (case conda_get_target_name w of
                  Inl e \<Rightarrow> Inl e
                | Inr tn \<Rightarrow>
                   (case environ_item w ''PREFIX'' of
                      Inl e \<Rightarrow> Inl e
                    | Inr p \<Rightarrow>
                        Inr (incs @ [bp @ ''/targets/'' @ tn @ ''/include'', p @ ''/include''],
                             libs @ [p @ ''/lib/stubs'', p @ ''/lib'']))))
         else
           (case environ_item w ''LIBRARY_INC'' of
              Inl e \<Rightarrow> Inl e
            | Inr li \<Rightarrow>
               (case environ_item w ''LIBRARY_LIB'' of
                  Inl e \<Rightarrow> Inl e
                | Inr ll \<Rightarrow> Inr (incs @ [li], libs @ [ll]))))
      else Inr (incs, libs))"

definition conda_update_dirs :: "world \<Rightarrow> string list \<Rightarrow> string list
      \<Rightarrow> exn + (string list \<times> string list)" where
  "conda_update_dirs w incs libs =
     (case conda_cross_dirs w incs libs of
        Inl e \<Rightarrow> Inl e
      | Inr (incs1, libs1) \<Rightarrow> conda_cuda12_dirs w incs1 libs1)"

definition manifest_postargs :: "world \<Rightarrow> string list" where
  "manifest_postargs w = (if PLATFORM_WIN32 w then [''/MANIFEST''] else [])"

definition stub_build_error :: "exn \<Rightarrow> exn" where
  "stub_build_error e =
     Exception (''Cannot build a stub file.'' @ [CHR 0x0A] @ ''Original error: '' @ str_exn e)"

definition stub_run_error :: "exn \<Rightarrow> exn" where
  "stub_run_error e =
     Exception (''Cannot execute a stub file.'' @ [CHR 0x0A] @ ''Original error: '' @ str_exn e)"

text \<open>
  The body of the \<open>with _tempdir()\<close> block of \<open>build_shlib\<close> and of \<open>build_and_run\<close>. A
  failing \<open>compile\<close> propagates as it is; a failing link or run is wrapped. The objects
  the compiler reports and the binary the linker was asked for are recorded as files.
\<close>

definition build_shlib_body :: "world \<Rightarrow> compiler \<Rightarrow> string \<Rightarrow> string list \<Rightarrow> string list
      \<Rightarrow> string list \<Rightarrow> (string \<times> pyval) list option \<Rightarrow> string list
      \<Rightarrow> string \<Rightarrow> fsys \<Rightarrow> (exn + unit) \<times> fsys" where
  "build_shlib_body w cc source libraries incs libs macros extra temp_dir f =
     (let fname = os_path_join temp_dir ''a.cpp'';
          f1 = write_file fname f
      in case compile cc [fname] temp_dir incs macros extra of
           Inl e \<Rightarrow> (Inl e, f1)
         | Inr objects \<Rightarrow>
            (let f2 = f1\<lparr>files := files f1 \<union> set objects\<rparr>
             in case link_shared_lib cc objects (os_path_join temp_dir ''a'') libraries libs
                       (manifest_postargs w) of
                  Inl e \<Rightarrow> (Inl (stub_build_error e), f2)
                | Inr u \<Rightarrow> (Inr (), write_file (os_path_join temp_dir ''a'') f2)))"

definition build_and_run_body :: "world \<Rightarrow> compiler \<Rightarrow> string \<Rightarrow> string list \<Rightarrow> string list
      \<Rightarrow> string list \<Rightarrow> (string \<times> pyval) list option \<Rightarrow> string list
      \<Rightarrow> string \<Rightarrow> fsys \<Rightarrow> (exn + string) \<times> fsys" where
  "build_and_run_body w cc source libraries incs libs macros extra temp_dir f =
     (let fname = os_path_join temp_dir ''a.cpp'';
          f1 = write_file fname f
      in case compile cc [fname] temp_dir incs macros extra of
           Inl e \<Rightarrow> (Inl e, f1)
         | Inr objects \<Rightarrow>
            (let f2 = f1\<lparr>files := files f1 \<union> set objects\<rparr>
             in case link_executable cc objects (os_path_join temp_dir ''a'') libraries libs
                       (manifest_postargs w) of
                  Inl e \<Rightarrow> (Inl (stub_build_error e), f2)
                | Inr u \<Rightarrow>
                   (let f3 = write_file (os_path_join temp_dir ''a'') f2
                    in case check_output w (os_path_join temp_dir ''a'') of
                         Inl e \<Rightarrow> (Inl (stub_run_error e), f3)
                       | Inr out \<Rightarrow> (Inr out, f3))))"

definition build_shlib :: "world \<Rightarrow> compiler \<Rightarrow> string \<Rightarrow> string list \<Rightarrow> string list
      \<Rightarrow> string list \<Rightarrow> (string \<times> pyval) list option \<Rightarrow> string list
      \<Rightarrow> fsys \<Rightarrow> (exn + unit) \<times> fsys" where
  "build_shlib w cc source libraries incs0 libs0 macros extra f =
     (case conda_update_dirs w incs0 libs0 of
        Inl e \<Rightarrow> (Inl e, f)
      | Inr (incs, libs) \<Rightarrow>
          tempdir w (build_shlib_body w cc source libraries incs libs macros extra) f)"

definition build_and_run :: "world \<Rightarrow> compiler \<Rightarrow> string \<Rightarrow> string list \<Rightarrow> string list
      \<Rightarrow> string list \<Rightarrow> (string \<times> pyval) list option \<Rightarrow> string list
      \<Rightarrow> fsys \<Rightarrow> (exn + string) \<times> fsys" where
  "build_and_run w cc source libraries incs0 libs0 macros extra f =
     (case conda_update_dirs w incs0 libs0 of
        Inl e \<Rightarrow> (Inl e, f)
      | Inr (incs, libs) \<Rightarrow>
          tempdir w (build_and_run_body w cc source libraries incs libs macros extra) f)"


section \<open>Per-dependency checks and their accessors\<close>

text \<open>
  Each check returns its result (\<open>Inr True\<close>, \<open>Inr False\<close>, or the exception that escapes
  it), the state afterwards, and the settings dictionary afterwards. The text of a probe
  program is not interpreted by this model: each program is named by the header it
  includes and the macro it prints.
\<close>

definition nl :: string where
  "nl = [CHR 0x0A]"

definition hip_source :: string where
  "hip_source = ''hip/hip_version.h HIP_VERSION''"

definition check_hip_version :: "world \<Rightarrow> compiler \<Rightarrow> settings \<Rightarrow> pstate
      \<Rightarrow> (exn + bool) \<times> pstate \<times> settings" where
  "check_hip_version w cc s st =
     (case build_and_run w cc hip_source [] (include_dirs s) [] None [] (fs st) of
        (Inl e, f) \<Rightarrow>
          (Inr False, print_warning [''Cannot check HIP version'', str_exn e] (st\<lparr>fs := f\<rparr>), s)
      | (Inr out, f) \<Rightarrow>
          (case int_of out of
             Inl e \<Rightarrow> (Inl e, st\<lparr>fs := f\<rparr>, s)
           | Inr v \<Rightarrow>
              (let st1 = st\<lparr>fs := f, hip_version := Some v\<rparr>
               in if v < minimum_hip_version then
                    (Inr False,
                     print_warning [''ROCm/HIP version is too old: '' @ str_int v,
                                    ''ROCm 3.5.0 or newer is required''] st1, s)
                  else (Inr True, st1, s))))"

definition get_hip_version :: "bool \<Rightarrow> pstate \<Rightarrow> exn + pyval" where
  "get_hip_version formatted st =
     (case hip_version st of
        None \<Rightarrow> Inl (RuntimeError ''check_hip_version() must be called first.'')
      | Some v \<Rightarrow> if formatted then Inr (PStr (str_int v)) else Inr (PInt v))"

text \<open>\<open>[int(o) for o in out.split()]\<close>: the first token that is no integer raises.\<close>

fun int_list :: "string list \<Rightarrow> exn + int list" where
  "int_list [] = Inr []"
| "int_list (t # ts) =
     (case int_of t of
        Inl e \<Rightarrow> Inl e
      | Inr n \<Rightarrow> (case int_list ts of Inl e \<Rightarrow> Inl e | Inr ns \<Rightarrow> Inr (n # ns)))"

definition compute_capabilities_source :: string where
  "compute_capabilities_source = ''cuda_runtime_api.h prop.major prop.minor''"

definition check_compute_capabilities :: "world \<Rightarrow> compiler \<Rightarrow> settings \<Rightarrow> pstate
      \<Rightarrow> (exn + bool) \<times> pstate \<times> settings" where
  "check_compute_capabilities w cc s st =
     (case build_and_run w cc compute_capabilities_source [''cudart''] (include_dirs s)
             (library_dirs s) None [] (fs st) of
        (Inl e, f) \<Rightarrow>
          (Inr False,
           print_warning [''Cannot check compute capability'' @ nl @ str_exn e] (st\<lparr>fs := f\<rparr>), s)
      | (Inr out, f) \<Rightarrow>
          (case int_list (split_ws out) of
             Inl e \<Rightarrow>
               (Inr False,
                print_warning [''Cannot check compute capability'' @ nl @ str_exn e]
                  (st\<lparr>fs := f\<rparr>), s)
           | Inr ns \<Rightarrow> (Inr True, st\<lparr>fs := f, compute_capabilities := Some (set ns)\<rparr>, s)))"

definition get_compute_capabilities :: "bool \<Rightarrow> pstate \<Rightarrow> exn + int set option" where
  "get_compute_capabilities formatted st = Inr (compute_capabilities st)"

definition thrust_source :: string where
  "thrust_source = ''thrust/version.h THRUST_VERSION''"

definition check_thrust_version :: "world \<Rightarrow> compiler \<Rightarrow> settings \<Rightarrow> pstate
      \<Rightarrow> (exn + bool) \<times> pstate \<times> settings" where
  "check_thrust_version w cc s st =
     (case build_and_run w cc thrust_source [] (include_dirs s) [] None [] (fs st) of
        (Inl e, f) \<Rightarrow>
          (Inr False,
           print_warning [''Cannot check Thrust version'' @ nl @ str_exn e] (st\<lparr>fs := f\<rparr>), s)
      | (Inr out, f) \<Rightarrow>
          (case int_of out of
             Inl e \<Rightarrow> (Inl e, st\<lparr>fs := f\<rparr>, s)
           | Inr v \<Rightarrow> (Inr True, st\<lparr>fs := f, thrust_version := Some v\<rparr>, s)))"

definition get_thrust_version :: "bool \<Rightarrow> pstate \<Rightarrow> exn + pyval" where
  "get_thrust_version formatted st =
     (case thrust_version st of
        None \<Rightarrow> Inl (RuntimeError ''check_thrust_version() must be called first.'')
      | Some v \<Rightarrow> if formatted then Inr (PStr (str_int v)) else Inr (PInt v))"

definition cudnn_source :: string where
  "cudnn_source = ''cudnn.h CUDNN_VERSION''"

definition check_cudnn_version :: "world \<Rightarrow> compiler \<Rightarrow> settings \<Rightarrow> pstate
      \<Rightarrow> (exn + bool) \<times> pstate \<times> settings" where
  "check_cudnn_version w cc s st =
     (case build_and_run w cc cudnn_source [] (include_dirs s) [] None [] (fs st) of
        (Inl e, f) \<Rightarrow>
          (Inr False,
           print_warning [''Cannot check cuDNN version'' @ nl @ str_exn e] (st\<lparr>fs := f\<rparr>), s)
      | (Inr out, f) \<Rightarrow>
          (case int_of out of
             Inl e \<Rightarrow> (Inl e, st\<lparr>fs := f\<rparr>, s)
           | Inr v \<Rightarrow>
              (let st1 = st\<lparr>fs := f, cudnn_version := Some v\<rparr>
               in if \<not> minimum_cudnn_version \<le> v then
                    (Inr False,
                     print_warning [''Unsupported cuDNN version: '' @ str_int v,
                                    ''cuDNN >=v'' @ str_int minimum_cudnn_version
                                      @ '' is required''] st1, s)
                  else (Inr True, st1, s))))"

definition get_cudnn_version :: "bool \<Rightarrow> pstate \<Rightarrow> exn + pyval" where
  "get_cudnn_version formatted st =
     (case cudnn_version st of
        None \<Rightarrow> Inl (RuntimeError ''check_cudnn_version() must be called first.'')
      | Some v \<Rightarrow> if formatted then Inr (PStr (str_int v)) else Inr (PInt v))"

definition nccl_source :: string where
  "nccl_source = ''nccl.h NCCL_VERSION_CODE''"

definition check_nccl_version :: "world \<Rightarrow> compiler \<Rightarrow> settings \<Rightarrow> pstate
      \<Rightarrow> (exn + bool) \<times> pstate \<times> settings" where
  "check_nccl_version w cc s st =
     (case build_and_run w cc nccl_source [] (include_dirs s) [] (Some (define_macros s)) []
             (fs st) of
        (Inl e, f) \<Rightarrow>
          (Inr False, print_warning [''Cannot include NCCL'' @ nl @ str_exn e] (st\<lparr>fs := f\<rparr>), s)
      | (Inr out, f) \<Rightarrow>
          (case int_of out of
             Inl e \<Rightarrow> (Inl e, st\<lparr>fs := f\<rparr>, s)
           | Inr v \<Rightarrow> (Inr True, st\<lparr>fs := f, nccl_version := Some v\<rparr>, s)))"

definition get_nccl_version :: "bool \<Rightarrow> pstate \<Rightarrow> exn + pyval" where
  "get_nccl_version formatted st =
     (case nccl_version st of
        None \<Rightarrow> Inl (RuntimeError ''check_nccl_version() must be called first.'')
      | Some v \<Rightarrow>
          if formatted then (if v = 0 then Inr (PStr ''1.x'') else Inr (PStr (str_int v)))
          else Inr (PInt v))"

definition check_nvtx :: "world \<Rightarrow> compiler \<Rightarrow> settings \<Rightarrow> pstate
      \<Rightarrow> (exn + bool) \<times> pstate \<times> settings" where
  "check_nvtx w cc s st =
     (if PLATFORM_WIN32 w \<and> nvtx_path w = None then
        (Inr False, print_warning [''NVTX unavailable''] st, s)
      else (Inr True, st, s))"

text \<open>
  The git-tag fallback of \<open>check_cub_version\<close> (the lines after \<open>tag = a.stdout.decode()[:-1]\<close>).
  A missing third field is an \<open>IndexError\<close>, which the inner \<open>except ValueError\<close> does not
  catch; a third field that is no integer is split at \<open>-\<close> and its first two parts added.
\<close>

definition cub_version_from_tag :: "string \<Rightarrow> exn + int" where
  "cub_version_from_tag tag0 =
     (let tag = split_on (CHR ''.'') (if startswith tag0 ''v'' then drop 1 tag0 else tag0)
      in case item_at tag 0 of Inl e \<Rightarrow> Inl e | Inr t0 \<Rightarrow>
         (case int_of t0 of Inl e \<Rightarrow> Inl e | Inr a \<Rightarrow>
         (case item_at tag 1 of Inl e \<Rightarrow> Inl e | Inr t1 \<Rightarrow>
         (case int_of t1 of Inl e \<Rightarrow> Inl e | Inr b \<Rightarrow>
         (let out = a * 100000 + b * 100
          in case item_at tag 2 of Inl e \<Rightarrow> Inl e | Inr t2 \<Rightarrow>
             (case py_int t2 of
                Some c \<Rightarrow> Inr (out + c)
              | None \<Rightarrow>
                 (let local_patch = split_on (CHR ''-'') t2
                  in case item_at local_patch 0 of Inl e \<Rightarrow> Inl e | Inr p0 \<Rightarrow>
                     (case int_of p0 of Inl e \<Rightarrow> Inl e | Inr n0 \<Rightarrow>
                     (case item_at local_patch 1 of Inl e \<Rightarrow> Inl e | Inr p1 \<Rightarrow>
                     (case int_of p1 of Inl e \<Rightarrow> Inl e | Inr n1 \<Rightarrow>
                        Inr (out + (n0 + n1))))))))))))"

definition cub_version_from_git :: "world \<Rightarrow> exn \<Rightarrow> exn + int" where
  "cub_version_from_git w e =
     (case subprocess_run w ''git describe --tags''
             (os_path_join (source_root w) ''third_party/cccl'') of
        Inl e2 \<Rightarrow> Inl e2
      | Inr a \<Rightarrow>
          if returncode a = 0 then
            (case decode (stdout a) of
               Inl e2 \<Rightarrow> Inl e2
             | Inr t \<Rightarrow> cub_version_from_tag (drop_last t))
          else Inl (RuntimeError (''Cannot determine CUB version from git tag'' @ nl
                                  @ str_exn e)))"

definition cub_source :: string where
  "cub_source = ''cub/version.cuh CUB_VERSION''"

definition cub_finish :: "int \<Rightarrow> pstate \<Rightarrow> settings \<Rightarrow> (exn + bool) \<times> pstate \<times> settings" where
  "cub_finish v st s =
     (Inr True, st\<lparr>cub_version := Some v\<rparr>,
      s\<lparr>define_macros := define_macros s @ [(''CUPY_CUB_VERSION_CODE'', PInt v)]\<rparr>)"

definition check_cub_version :: "world \<Rightarrow> compiler \<Rightarrow> settings \<Rightarrow> pstate
      \<Rightarrow> (exn + bool) \<times> pstate \<times> settings" where
  "check_cub_version w cc s st =
     (case build_and_run w cc cub_source [] (include_dirs s) [] (Some (define_macros s)) []
             (fs st) of
        (Inr out, f) \<Rightarrow>
          (case int_of out of
             Inl e \<Rightarrow> (Inl e, st\<lparr>fs := f\<rparr>, s)
           | Inr v \<Rightarrow> cub_finish v (st\<lparr>fs := f\<rparr>) s)
      | (Inl e, f) \<Rightarrow>
          (case cub_version_from_git w e of
             Inr v \<Rightarrow> cub_finish v (st\<lparr>fs := f\<rparr>) s
           | Inl e2 \<Rightarrow>
               cub_finish (- 1)
                 (print_warning [''Cannot determine CUB version'' @ nl @ str_exn e2]
                    (st\<lparr>fs := f\<rparr>)) s))"

definition get_cub_version :: "bool \<Rightarrow> pstate \<Rightarrow> exn + pyval" where
  "get_cub_version formatted st =
     (case cub_version st of
        None \<Rightarrow> Inl (RuntimeError ''check_cub_version() must be called first.'')
      | Some v \<Rightarrow>
          if formatted then (if v = - 1 then Inr (PStr ''<unknown>'') else Inr (PStr (str_int v)))
          else Inr (PInt v))"

definition jitify_version_from_git :: "world \<Rightarrow> exn + pyval" where
  "jitify_version_from_git w =
     (case subprocess_run w ''git rev-parse --short HEAD''
             (os_path_join (source_root w) ''third_party/jitify'') of
        Inl e \<Rightarrow> Inl e
      | Inr a \<Rightarrow>
          if returncode a = 0 then
            (case decode (stdout a) of
               Inl e \<Rightarrow> Inl e
             | Inr t \<Rightarrow> Inr (PStr (drop_last t)))
          else Inl (RuntimeError ''Cannot determine Jitify version from git''))"

definition jitify_finish :: "pyval \<Rightarrow> pstate \<Rightarrow> settings
      \<Rightarrow> (exn + bool) \<times> pstate \<times> settings" where
  "jitify_finish v st s =
     (Inr True, st\<lparr>jitify_version := Some v\<rparr>,
      s\<lparr>define_macros := define_macros s @ [(''CUPY_JITIFY_VERSION_CODE'', v)]\<rparr>)"

definition check_jitify_version :: "world \<Rightarrow> compiler \<Rightarrow> settings \<Rightarrow> pstate
      \<Rightarrow> (exn + bool) \<times> pstate \<times> settings" where
  "check_jitify_version w cc s st =
     (case jitify_version_from_git w of
        Inr v \<Rightarrow> jitify_finish v st s
      | Inl e \<Rightarrow>
          jitify_finish (PInt (- 1))
            (print_warning [''Cannot determine Jitify version'' @ nl @ str_exn e] st) s)"

definition get_jitify_version :: "bool \<Rightarrow> pstate \<Rightarrow> exn + pyval" where
  "get_jitify_version formatted st =
     (case jitify_version st of
        None \<Rightarrow> Inl (RuntimeError ''check_jitify_version() must be called first.'')
      | Some v \<Rightarrow>
          if formatted then (if v = PInt (- 1) then Inr (PStr ''<unknown>'') else Inr v)
          else Inl (RuntimeError ''Jitify version is a commit string''))"

definition cutensor_source :: string where
  "cutensor_source = ''cutensor.h CUTENSOR_VERSION''"

definition check_cutensor_version :: "world \<Rightarrow> compiler \<Rightarrow> settings \<Rightarrow> pstate
      \<Rightarrow> (exn + bool) \<times> pstate \<times> settings" where
  "check_cutensor_version w cc s st =
     (case build_and_run w cc cutensor_source [] (include_dirs s) [] None [] (fs st) of
        (Inl e, f) \<Rightarrow>
          (Inr False,
           print_warning [''Cannot check cuTENSOR version'' @ nl @ str_exn e] (st\<lparr>fs := f\<rparr>), s)
      | (Inr out, f) \<Rightarrow>
          (case int_of out of
             Inl e \<Rightarrow> (Inl e, st\<lparr>fs := f\<rparr>, s)
           | Inr v \<Rightarrow>
              (let st1 = st\<lparr>fs := f, cutensor_version := Some v\<rparr>
               in if v < 2000 then
                    (Inr False,
                     print_warning [''Unsupported cuTENSOR version: '' @ str_int v] st1, s)
                  else (Inr True, st1, s))))"

definition get_cutensor_version :: "bool \<Rightarrow> pstate \<Rightarrow> exn + pyval" where
  "get_cutensor_version formatted st =
     (case cutensor_version st of
        None \<Rightarrow> Inl (RuntimeError ''check_cutensor_version() must be called first.'')
      | Some v \<Rightarrow> Inr (PInt v))"

definition cusparselt_source :: string where
  "cusparselt_source = ''cusparseLt.h CUSPARSELT_VERSION''"

definition check_cusparselt_version :: "world \<Rightarrow> compiler \<Rightarrow> settings \<Rightarrow> pstate
      \<Rightarrow> (exn + bool) \<times> pstate \<times> settings" where
  "check_cusparselt_version w cc s st =
     (case build_and_run w cc cusparselt_source [] (include_dirs s) [] None [] (fs st) of
        (Inl e, f) \<Rightarrow>
          (Inr False,
           print_warning [''Cannot check cuSPARSELt version'' @ nl @ str_exn e] (st\<lparr>fs := f\<rparr>), s)
      | (Inr out, f) \<Rightarrow>
          (case int_of out of
             Inl e \<Rightarrow> (Inl e, st\<lparr>fs := f\<rparr>, s)
           | Inr v \<Rightarrow> (Inr True, st\<lparr>fs := f, cusparselt_version := Some v\<rparr>, s)))"

definition get_cusparselt_version :: "bool \<Rightarrow> pstate \<Rightarrow> exn + pyval" where
  "get_cusparselt_version formatted st =
     (case cusparselt_version st of
        None \<Rightarrow> Inl (RuntimeError ''check_cusparselt_version() must be called first.'')
      | Some v \<Rightarrow> Inr (PInt v))"


section \<open>Base options of the compiler\<close>

text \<open>
  \<open>_get_compiler_base_options\<close>: compile a dummy file; when the compiler fails, look for
  the two-line diagnostic and return the options it suggests.
\<close>

definition base_options_body :: "world \<Rightarrow> string list \<Rightarrow> string \<Rightarrow> fsys
      \<Rightarrow> (exn + string list) \<times> fsys" where
  "base_options_body w compiler_path temp_dir f =
     (let test_cu_path = os_path_join temp_dir ''test.cu'';
          test_out_path = os_path_join temp_dir ''test.out'';
          f1 = write_file test_cu_path f
      in case popen_communicate w (compiler_path @ [''-o'', test_out_path, test_cu_path]) of
           Inl e \<Rightarrow> (Inl e, f1)
         | Inr (rc, stdoutdata, stderrdata) \<Rightarrow>
            (let stderrlines = split_on (CHR 0x0A) stderrdata
             in if rc \<noteq> 0 then
                  (case match_output_lines re_match stderrlines
                          [pat_no_host_compiler, pat_use_nvcc] of
                     Inl e \<Rightarrow> (Inl e, f1)
                   | Inr (Some matches) \<Rightarrow>
                      (case item_at matches 1 of
                         Inr (Some m) \<Rightarrow>
                           (case match_group m 1 of
                              Some g \<Rightarrow>
                                (case decode g of
                                   Inl e \<Rightarrow> (Inl e, f1)
                                 | Inr base_opts \<Rightarrow> (Inr (split_on (CHR '' '') base_opts), f1))
                            | None \<Rightarrow> (Inl (External ''AttributeError''), f1))
                       | Inr None \<Rightarrow> (Inl (External ''AttributeError''), f1)
                       | Inl e \<Rightarrow> (Inl e, f1))
                   | Inr None \<Rightarrow>
                      (case decode stderrdata of
                         Inl e \<Rightarrow> (Inl e, f1)
                       | Inr t \<Rightarrow>
                          (Inl (RuntimeError
                                 (''Encountered unknown error while testing nvcc:'' @ nl @ t)),
                           f1)))
                else (Inr [], write_file test_out_path f1)))"

definition get_compiler_base_options_uncached :: "world \<Rightarrow> string list \<Rightarrow> fsys
      \<Rightarrow> (exn + string list) \<times> fsys" where
  "get_compiler_base_options_uncached w compiler_path f =
     tempdir w (base_options_body w compiler_path) f"

section \<open>Sample environments\<close>

text \<open>
  Concrete environments on which the statements below are evaluated: a compiler whose
  three operations succeed, one whose \<open>compile\<close> fails, and a machine where the probe
  binary prints \<open>out\<close>, git prints \<open>git_out\<close> with exit status \<open>rc\<close>, and every path can be
  deleted.
\<close>

definition good_compiler :: compiler where
  "good_compiler =
     \<lparr>compile = (\<lambda>srcs output_dir incs macros extra. Inr [os_path_join output_dir ''a.o'']),
      link_executable = (\<lambda>objs out libs libdirs post. Inr ()),
      link_shared_lib = (\<lambda>objs out libs libdirs post. Inr ())\<rparr>"

definition broken_compiler :: compiler where
  "broken_compiler =
     \<lparr>compile = (\<lambda>srcs output_dir incs macros extra. Inl (External ''compile failed'')),
      link_executable = (\<lambda>objs out libs libdirs post. Inr ()),
      link_shared_lib = (\<lambda>objs out libs libdirs post. Inr ())\<rparr>"

definition sample_world :: "(string \<rightharpoonup> string) \<Rightarrow> string \<Rightarrow> int \<Rightarrow> string \<Rightarrow> world" where
  "sample_world env out rc git_out =
     \<lparr>environ = env, PLATFORM_LINUX = True, PLATFORM_WIN32 = False,
      machine = ''x86_64'', source_root = ''/src/cupy'', nvtx_path = None,
      mkdtemp = ''/tmp/tmpk3x9'', undeletable = {},
      check_output = (\<lambda>p. Inr out),
      subprocess_run = (\<lambda>cmd cwd. Inr \<lparr>returncode = rc, stdout = git_out\<rparr>),
      popen_communicate = (\<lambda>cmd. Inr (0, [], []))\<rparr>"

definition empty_fs :: fsys where
  "empty_fs = \<lparr>dirs = {}, files = {}, mkdtemp_calls = [], rmtree_calls = []\<rparr>"

definition sample_settings :: settings where
  "sample_settings =
     \<lparr>include_dirs = [''/usr/local/cuda/include''], library_dirs = [''/usr/local/cuda/lib64''],
      define_macros = [], language = ''c++'', extra_compile_args = []\<rparr>"


section \<open>The diagnostic matcher, as specified\<close>

text \<open>
  This definition follows the words of the specification (section 4.3), not the code: a
  window at a start offset matches when expression \<open>i\<close> matches line \<open>start + i\<close> for every
  \<open>i\<close>; the result is the first matching window over a list of start offsets, and the valid
  offsets run from \<open>0\<close> through \<open>len(lines) - len(regexs)\<close> inclusive.
\<close>

fun window_match :: "('r \<Rightarrow> 'l \<Rightarrow> exn + 'm option) \<Rightarrow> 'r list \<Rightarrow> 'l list \<Rightarrow> 'm list option" where
  "window_match rm [] ls = Some []"
| "window_match rm (r # rs) [] = None"
| "window_match rm (r # rs) (l # ls) =
     (case rm r l of
        Inr (Some m) \<Rightarrow> map_option ((#) m) (window_match rm rs ls)
      | _ \<Rightarrow> None)"

fun first_window :: "('r \<Rightarrow> 'l \<Rightarrow> exn + 'm option) \<Rightarrow> 'l list \<Rightarrow> 'r list \<Rightarrow> nat list
      \<Rightarrow> 'm list option" where
  "first_window rm ls rs [] = None"
| "first_window rm ls rs (i # is) =
     (case window_match rm rs (drop i ls) of
        Some ms \<Rightarrow> Some ms
      | None \<Rightarrow> first_window rm ls rs is)"

definition match_output_lines_spec :: "('r \<Rightarrow> 'l \<Rightarrow> exn + 'm option) \<Rightarrow> 'l list \<Rightarrow> 'r list
      \<Rightarrow> 'm list option" where
  "match_output_lines_spec rm ls rs =
     (if length ls < length rs then None
      else first_window rm ls rs [0 ..< length ls - length rs + 1])"

section \<open>Decimal numerals\<close>

text \<open>
  The components \<open>X\<close>, \<open>Y\<close>, \<open>Z\<close>, \<open>N\<close> of a git tag are decimal numerals: non-empty
  strings of digits. \<open>dec_val\<close> is the number such a string denotes.
\<close>

definition is_number :: "string \<Rightarrow> bool" where
  "is_number s = (s \<noteq> [] \<and> list_all is_digit s)"

definition dec_val :: "string \<Rightarrow> int" where
  "dec_val s = int (foldl (\<lambda>a c. a * 10 + digit_val c) 0 s)"

section \<open>Properties of the diagnostic matcher\<close>

text \<open>
  When the first expression matches none of the lines, every window fails at its first
  line and the scan returns \<open>None\<close>.
\<close>

lemma scan_windows_first_never:
  assumes "\<forall>l\<in>set ls. rm r l = Inr None" and "\<forall>i\<in>set is. i < length ls"
  shows "scan_windows rm ls (r # rs) is ms = Inr None"
  using assms by (induction "is" arbitrary: ms) (simp_all add: item_at_def)

lemma match_output_lines_first_never:
  assumes "\<forall>l\<in>set ls. rm r l = Inr None"
  shows "match_output_lines rm ls (r # rs) = Inr None"
proof -
  have "\<forall>i\<in>set [0 ..< length ls - length (r # rs)]. i < length ls"
    by auto
  with assms show ?thesis
    unfolding match_output_lines_def by (simp add: scan_windows_first_never)
qed

text \<open>
  The outer loop is \<open>range(len(output_lines) - len(regexs))\<close>: with as many lines as
  expressions it has no iteration at all, whatever the expressions match.
\<close>

lemma match_output_lines_same_length:
  "length ls = length rs \<Longrightarrow> match_output_lines rm ls rs = Inr None"
  by (simp add: match_output_lines_def)

text \<open>
  What the code computes: when no expression raises and there are at least as many lines
  as expressions, the matcher returns the first matching window among the start offsets
  \<open>0, ..., len(lines) - len(regexs) - 1\<close>. The offset \<open>len(lines) - len(regexs)\<close> itself is
  not among them.
\<close>

lemma window_match_length:
  "window_match rm rs ls = Some ms \<Longrightarrow> length ms = length rs"
  by (induction rm rs ls arbitrary: ms rule: window_match.induct)
     (auto split: sum.splits option.splits)

lemma match_window_refines:
  assumes total: "\<forall>r l. \<not> isl (rm r l)"
    and "i + j + length rs \<le> length ls" and "j + length rs \<le> length matches"
  shows "case window_match rm rs (drop (i + j) ls) of
           Some ms \<Rightarrow>
             match_window rm ls i j rs matches
               = Inr (True, take j matches @ map Some ms @ drop (j + length rs) matches)
         | None \<Rightarrow>
             (\<exists>ms'. match_window rm ls i j rs matches = Inr (False, ms')
                    \<and> length ms' = length matches)"
  using assms(2,3)
proof (induction rs arbitrary: j matches)
  case Nil
  then show ?case by simp
next
  case (Cons r rs)
  from Cons.prems have ij: "i + j < length ls" and jm: "j < length matches" by auto
  from ij have dr: "drop (i + j) ls = ls ! (i + j) # drop (i + Suc j) ls"
    by (simp add: Cons_nth_drop_Suc)
  from ij have it: "item_at ls (i + j) = Inr (ls ! (i + j))"
    by (simp add: item_at_def)
  obtain x where x: "rm r (ls ! (i + j)) = Inr x"
    using total by (cases "rm r (ls ! (i + j))") (metis sum.disc(1), blast)
  show ?case
  proof (cases x)
    case None
    with x it dr show ?thesis by simp
  next
    case (Some m)
    have ih: "case window_match rm rs (drop (i + Suc j) ls) of
           Some ms \<Rightarrow>
             match_window rm ls i (Suc j) rs (matches[j := Some m])
               = Inr (True, take (Suc j) (matches[j := Some m]) @ map Some ms
                            @ drop (Suc j + length rs) (matches[j := Some m]))
         | None \<Rightarrow>
             (\<exists>ms'. match_window rm ls i (Suc j) rs (matches[j := Some m]) = Inr (False, ms')
                    \<and> length ms' = length (matches[j := Some m]))"
      using Cons.IH [of "Suc j" "matches[j := Some m]"] Cons.prems by simp
    have tk: "take (Suc j) (matches[j := Some m]) = take j matches @ [Some m]"
      using jm by (simp add: take_Suc_conv_app_nth)
    have dp: "drop (Suc j + length rs) (matches[j := Some m]) = drop (Suc j + length rs) matches"
      by simp
    show ?thesis
    proof (cases "window_match rm rs (drop (i + Suc j) ls)")
      case None
      with ih x Some it dr show ?thesis by simp
    next
      case (Some ms)
      with ih x \<open>x = Some m\<close> it dr tk dp show ?thesis by simp
    qed
  qed
qed

lemma scan_windows_refines:
  assumes total: "\<forall>r l. \<not> isl (rm r l)"
    and "\<forall>i\<in>set is. i + length rs \<le> length ls" and "length matches = length rs"
  shows "scan_windows rm ls rs is matches
           = Inr (map_option (map Some) (first_window rm ls rs is))"
  using assms(2,3)
proof (induction "is" arbitrary: matches)
  case Nil
  then show ?case by simp
next
  case (Cons i "is")
  from Cons.prems have b: "i + 0 + length rs \<le> length ls" "0 + length rs \<le> length matches"
    by auto
  note mw = match_window_refines [OF total b]
  show ?case
  proof (cases "window_match rm rs (drop i ls)")
    case None
    with mw obtain ms' where
      "match_window rm ls i 0 rs matches = Inr (False, ms')" "length ms' = length matches"
      by auto
    with None Cons show ?thesis by simp
  next
    case (Some ms)
    with mw window_match_length [OF Some] Cons.prems show ?thesis by simp
  qed
qed

lemma match_output_lines_refines:
  assumes "\<forall>r l. \<not> isl (rm r l)" and "length rs \<le> length ls"
  shows "match_output_lines rm ls rs
           = Inr (map_option (map Some)
                   (first_window rm ls rs [0 ..< length ls - length rs]))"
proof -
  have "\<forall>i\<in>set [0 ..< length ls - length rs]. i + length rs \<le> length ls"
    by auto
  from scan_windows_refines [OF assms(1) this, of "replicate (length rs) None"] assms(2)
  show ?thesis by (simp add: match_output_lines_def)
qed

text \<open>
  The effect on \<open>_get_compiler_base_options\<close>: when the compiler's standard error ends with
  a newline, \<open>split\<close> leaves an empty last line and the two-line diagnostic is found; when
  it does not, the diagnostic sits in the last window and the function raises its
  ``unknown error'' instead of returning the suggested options.
\<close>

lemma base_options_with_final_newline:
  "fst (get_compiler_base_options_uncached
         ((sample_world Map.empty [] 0 [])\<lparr>popen_communicate := (\<lambda>cmd. Inr (1, [],
            ''ERROR: No supported gcc/g++ host compiler found, but clang is available.'' @ nl
            @ ''Use 'nvcc -ccbin clang' to use that instead.'' @ nl))\<rparr>)
         [''nvcc''] empty_fs)
   = Inr [''-ccbin'', ''clang'']"
  by code_simp

lemma base_options_without_final_newline:
  "fst (get_compiler_base_options_uncached
         ((sample_world Map.empty [] 0 [])\<lparr>popen_communicate := (\<lambda>cmd. Inr (1, [],
            ''ERROR: No supported gcc/g++ host compiler found, but clang is available.'' @ nl
            @ ''Use 'nvcc -ccbin clang' to use that instead.''))\<rparr>)
         [''nvcc''] empty_fs)
   = Inl (RuntimeError (''Encountered unknown error while testing nvcc:'' @ nl
            @ ''ERROR: No supported gcc/g++ host compiler found, but clang is available.'' @ nl
            @ ''Use 'nvcc -ccbin clang' to use that instead.''))"
  by code_simp

text \<open>
  Claim C1. The matcher is specified to try every start offset from \<open>0\<close> through
  \<open>len(lines) - len(regexs)\<close> inclusive and to return \<open>None\<close> only when no window matches.
  The code stops one offset early. Here the compiler's diagnostic consists of exactly the
  two lines the two patterns describe (standard error without a final newline): each
  pattern matches its line, the window at offset \<open>0\<close> is the last valid one and the
  specified result is its two match objects, and the code returns \<open>None\<close>.
\<close>

theorem last_window_is_never_tried:
  "match_output_lines re_match
     [''ERROR: No supported gcc/g++ host compiler found, but clang is available.'',
      ''Use 'nvcc -ccbin clang' to use that instead.'']
     [pat_no_host_compiler, pat_use_nvcc] = Inr None
   \<and> match_output_lines_spec re_match
     [''ERROR: No supported gcc/g++ host compiler found, but clang is available.'',
      ''Use 'nvcc -ccbin clang' to use that instead.'']
     [pat_no_host_compiler, pat_use_nvcc]
     = Some [\<lparr>whole = ''ERROR: No supported gcc/g++ host compiler found, but clang is available.'',
               groups = []\<rparr>,
             \<lparr>whole = ''Use 'nvcc -ccbin clang' to use that instead.'',
               groups = [(1, ''-ccbin clang'')]\<rparr>]
   \<and> re_match pat_no_host_compiler
        ''ERROR: No supported gcc/g++ host compiler found, but clang is available.''
      = Inr (Some \<lparr>whole = ''ERROR: No supported gcc/g++ host compiler found, but clang is available.'',
                   groups = []\<rparr>)
   \<and> re_match pat_use_nvcc ''Use 'nvcc -ccbin clang' to use that instead.''
      = Inr (Some \<lparr>whole = ''Use 'nvcc -ccbin clang' to use that instead.'',
                   groups = [(1, ''-ccbin clang'')]\<rparr>)"
  by code_simp

text \<open>
  Claim C4, as stated: on the lines \<open>a\<close>, \<open>ERROR: X\<close>, \<open>Use 'nvcc --foo' to use that
  instead.\<close>, \<open>b\<close> the matcher with the two patterns of the base-options probe would return
  the capture \<open>--foo\<close>. It returns \<open>None\<close>: the first pattern asks for the full text
  \<open>ERROR: No supported gcc/g++ host compiler found, but ... is available.\<close>, which
  \<open>ERROR: X\<close> is not.
\<close>

theorem documented_example_does_not_match:
  "match_output_lines re_match
     [''a'', ''ERROR: X'', ''Use 'nvcc --foo' to use that instead.'', ''b'']
     [pat_no_host_compiler, pat_use_nvcc] = Inr None"
  by code_simp

lemma host_compiler_example:
  "match_output_lines re_match
     [''a'', ''ERROR: No supported gcc/g++ host compiler found, but X is available.'',
      ''Use 'nvcc --foo' to use that instead.'', ''b'']
     [pat_no_host_compiler, pat_use_nvcc]
   = Inr (Some
       [Some \<lparr>whole = ''ERROR: No supported gcc/g++ host compiler found, but X is available.'',
               groups = []\<rparr>,
        Some \<lparr>whole = ''Use 'nvcc --foo' to use that instead.'',
               groups = [(1, ''--foo'')]\<rparr>])"
  by code_simp

text \<open>
  Claim C4, amended: when the second line is a diagnostic the first pattern matches
  (\<open>ERROR: No supported gcc/g++ host compiler found, but X is available.\<close>), the matcher
  returns the two match objects and group 1 of the second one is \<open>--foo\<close>; on any lines
  none of which matches the first pattern, it returns \<open>None\<close>.
\<close>

theorem matcher_on_host_compiler_diagnostic:
  "match_output_lines re_match
     [''a'', ''ERROR: No supported gcc/g++ host compiler found, but X is available.'',
      ''Use 'nvcc --foo' to use that instead.'', ''b'']
     [pat_no_host_compiler, pat_use_nvcc]
   = Inr (Some
       [Some \<lparr>whole = ''ERROR: No supported gcc/g++ host compiler found, but X is available.'',
               groups = []\<rparr>,
        Some \<lparr>whole = ''Use 'nvcc --foo' to use that instead.'',
               groups = [(1, ''--foo'')]\<rparr>])
   \<and> match_group \<lparr>whole = ''Use 'nvcc --foo' to use that instead.'',
                    groups = [(1, ''--foo'')]\<rparr> 1 = Some ''--foo''
   \<and> ((\<forall>l\<in>set ls. re_match pat_no_host_compiler l = Inr None)
        \<longrightarrow> match_output_lines re_match ls [pat_no_host_compiler, pat_use_nvcc] = Inr None)"
  using host_compiler_example
    match_output_lines_first_never [of ls re_match pat_no_host_compiler "[pat_use_nvcc]"]
  by (simp add: match_group_def)

theorem matcher_on_host_compiler_diagnostic_witness:
  "re_match pat_no_host_compiler ''make: nvcc: command not found'' = Inr None
   \<and> re_match pat_no_host_compiler ''b'' = Inr None
   \<and> match_output_lines re_match [''make: nvcc: command not found'', ''b'']
         [pat_no_host_compiler, pat_use_nvcc] = Inr None"
proof -
  have h: "re_match pat_no_host_compiler ''make: nvcc: command not found'' = Inr None
           \<and> re_match pat_no_host_compiler ''b'' = Inr None"
    by code_simp
  with matcher_on_host_compiler_diagnostic [of "[''make: nvcc: command not found'', ''b'']"]
  show ?thesis by simp
qed


section \<open>Properties of the accessors\<close>

text \<open>
  Claim C2, as stated: every accessor, \<open>get_compute_capabilities\<close> included, raises a
  ``must be called first'' error before its check has run. \<open>get_compute_capabilities\<close> has
  no such guard: on the freshly loaded module it returns the cache as it is, \<open>None\<close>.
\<close>

theorem compute_capabilities_accessor_does_not_raise:
  "get_compute_capabilities False (module_init empty_fs) = Inr None"
  by (simp add: get_compute_capabilities_def module_init_def)

text \<open>
  Claim C2, amended: each of the eight version accessors (HIP, Thrust, cuDNN, NCCL, CUB,
  Jitify, cuTENSOR, cuSPARSELt) raises \<open>RuntimeError\<close> ``\<open>check_..._version() must be
  called first.\<close>'' whenever its cache is still unset, whatever the \<open>formatted\<close> flag and
  the rest of the state; \<open>get_compute_capabilities\<close> never raises and returns the cached
  value, which is \<open>None\<close> before \<open>check_compute_capabilities\<close> has stored a set.
\<close>

theorem accessors_before_check:
  "(hip_version st = None \<longrightarrow>
      get_hip_version fmt st = Inl (RuntimeError ''check_hip_version() must be called first.''))
   \<and> (thrust_version st = None \<longrightarrow>
      get_thrust_version fmt st
        = Inl (RuntimeError ''check_thrust_version() must be called first.''))
   \<and> (cudnn_version st = None \<longrightarrow>
      get_cudnn_version fmt st
        = Inl (RuntimeError ''check_cudnn_version() must be called first.''))
   \<and> (nccl_version st = None \<longrightarrow>
      get_nccl_version fmt st = Inl (RuntimeError ''check_nccl_version() must be called first.''))
   \<and> (cub_version st = None \<longrightarrow>
      get_cub_version fmt st = Inl (RuntimeError ''check_cub_version() must be called first.''))
   \<and> (jitify_version st = None \<longrightarrow>
      get_jitify_version fmt st
        = Inl (RuntimeError ''check_jitify_version() must be called first.''))
   \<and> (cutensor_version st = None \<longrightarrow>
      get_cutensor_version fmt st
        = Inl (RuntimeError ''check_cutensor_version() must be called first.''))
   \<and> (cusparselt_version st = None \<longrightarrow>
      get_cusparselt_version fmt st
        = Inl (RuntimeError ''check_cusparselt_version() must be called first.''))
   \<and> get_compute_capabilities fmt st = Inr (compute_capabilities st)"
  by (simp add: get_hip_version_def get_thrust_version_def get_cudnn_version_def
      get_nccl_version_def get_cub_version_def get_jitify_version_def
      get_cutensor_version_def get_cusparselt_version_def get_compute_capabilities_def)

theorem accessors_before_check_witness:
  "hip_version (module_init empty_fs) = None
   \<and> get_hip_version True (module_init empty_fs)
       = Inl (RuntimeError ''check_hip_version() must be called first.'')
   \<and> thrust_version (module_init empty_fs) = None
   \<and> get_thrust_version True (module_init empty_fs)
       = Inl (RuntimeError ''check_thrust_version() must be called first.'')
   \<and> cudnn_version (module_init empty_fs) = None
   \<and> get_cudnn_version True (module_init empty_fs)
       = Inl (RuntimeError ''check_cudnn_version() must be called first.'')
   \<and> nccl_version (module_init empty_fs) = None
   \<and> get_nccl_version True (module_init empty_fs)
       = Inl (RuntimeError ''check_nccl_version() must be called first.'')
   \<and> cub_version (module_init empty_fs) = None
   \<and> get_cub_version True (module_init empty_fs)
       = Inl (RuntimeError ''check_cub_version() must be called first.'')
   \<and> jitify_version (module_init empty_fs) = None
   \<and> get_jitify_version True (module_init empty_fs)
       = Inl (RuntimeError ''check_jitify_version() must be called first.'')
   \<and> cutensor_version (module_init empty_fs) = None
   \<and> get_cutensor_version True (module_init empty_fs)
       = Inl (RuntimeError ''check_cutensor_version() must be called first.'')
   \<and> cusparselt_version (module_init empty_fs) = None
   \<and> get_cusparselt_version True (module_init empty_fs)
       = Inl (RuntimeError ''check_cusparselt_version() must be called first.'')"
proof -
  have init: "hip_version (module_init empty_fs) = None"
    "thrust_version (module_init empty_fs) = None"
    "cudnn_version (module_init empty_fs) = None"
    "nccl_version (module_init empty_fs) = None"
    "cub_version (module_init empty_fs) = None"
    "jitify_version (module_init empty_fs) = None"
    "cutensor_version (module_init empty_fs) = None"
    "cusparselt_version (module_init empty_fs) = None"
    by (simp_all add: module_init_def)
  with accessors_before_check [of "module_init empty_fs" True]
  show ?thesis by simp
qed

text \<open>What \<open>check_jitify_version\<close> leaves behind, and what the accessor makes of it.\<close>

lemma jitify_finish_read:
  "jitify_finish v st s = (r, st', s') \<Longrightarrow>
     r = Inr True \<and> jitify_version st' = Some v
     \<and> get_jitify_version False st' = Inl (RuntimeError ''Jitify version is a commit string'')
     \<and> get_jitify_version True st'
         = Inr (if v = PInt (- 1) then PStr ''<unknown>'' else v)"
  by (auto simp: jitify_finish_def get_jitify_version_def)

lemma check_jitify_version_cases:
  "\<exists>st0. check_jitify_version w cc s st = jitify_finish (PInt (- 1)) st0 s
     \<or> (\<exists>c. check_jitify_version w cc s st = jitify_finish (PStr c) st0 s)"
  unfolding check_jitify_version_def jitify_version_from_git_def
  by (auto split: sum.splits if_splits)

lemma jitify_after_check:
  "\<exists>r st' s'. check_jitify_version w cc s st = (r, st', s')
     \<and> r = Inr True
     \<and> get_jitify_version False st' = Inl (RuntimeError ''Jitify version is a commit string'')
     \<and> ((\<exists>c. jitify_version st' = Some (PStr c) \<and> get_jitify_version True st' = Inr (PStr c))
          \<or> (jitify_version st' = Some (PInt (- 1))
              \<and> get_jitify_version True st' = Inr (PStr ''<unknown>'')))"
proof -
  obtain r st' s' where eq: "check_jitify_version w cc s st = (r, st', s')"
    by (cases "check_jitify_version w cc s st") auto
  from check_jitify_version_cases [of w cc s st] obtain st0 where
    "check_jitify_version w cc s st = jitify_finish (PInt (- 1)) st0 s
     \<or> (\<exists>c. check_jitify_version w cc s st = jitify_finish (PStr c) st0 s)" by blast
  then show ?thesis
  proof
    assume "check_jitify_version w cc s st = jitify_finish (PInt (- 1)) st0 s"
    with eq have "jitify_finish (PInt (- 1)) st0 s = (r, st', s')" by simp
    from jitify_finish_read [OF this] eq show ?thesis by auto
  next
    assume "\<exists>c. check_jitify_version w cc s st = jitify_finish (PStr c) st0 s"
    then obtain c where "check_jitify_version w cc s st = jitify_finish (PStr c) st0 s" ..
    with eq have "jitify_finish (PStr c) st0 s = (r, st', s')" by simp
    from jitify_finish_read [OF this] eq show ?thesis by auto
  qed
qed

text \<open>
  Claim C10. \<open>check_jitify_version\<close> always returns \<open>True\<close>; afterwards the cache holds
  either the commit string or the sentinel \<open>-1\<close>, \<open>get_jitify_version(formatted=True)\<close>
  returns the commit string, or \<open><unknown>\<close> for the sentinel, and
  \<open>get_jitify_version(formatted=False)\<close> raises \<open>RuntimeError\<close> ``Jitify version is a commit
  string''. In no state at all does \<open>get_jitify_version(formatted=False)\<close> return a value.
\<close>

theorem jitify_version_only_formatted:
  "(\<exists>r st' s'. check_jitify_version w cc s st = (r, st', s')
     \<and> r = Inr True
     \<and> get_jitify_version False st' = Inl (RuntimeError ''Jitify version is a commit string'')
     \<and> ((\<exists>c. jitify_version st' = Some (PStr c) \<and> get_jitify_version True st' = Inr (PStr c))
          \<or> (jitify_version st' = Some (PInt (- 1))
              \<and> get_jitify_version True st' = Inr (PStr ''<unknown>''))))
   \<and> isl (get_jitify_version False st0)"
proof
  show "\<exists>r st' s'. check_jitify_version w cc s st = (r, st', s')
     \<and> r = Inr True
     \<and> get_jitify_version False st' = Inl (RuntimeError ''Jitify version is a commit string'')
     \<and> ((\<exists>c. jitify_version st' = Some (PStr c) \<and> get_jitify_version True st' = Inr (PStr c))
          \<or> (jitify_version st' = Some (PInt (- 1))
              \<and> get_jitify_version True st' = Inr (PStr ''<unknown>'')))"
    by (rule jitify_after_check)
  show "isl (get_jitify_version False st0)"
    by (simp add: get_jitify_version_def split: option.splits)
qed

section \<open>The checks and the settings dictionary\<close>

text \<open>
  With no conda variable in the environment \<open>conda_update_dirs\<close> returns its arguments
  unchanged, and on the sample machine the probe is built and run (or fails to compile with
  the broken compiler).
\<close>

lemmas int_parse_defs =
  int_of_def py_int_def strip_def is_space_def parse_nat_def is_digit_def digit_val_def

lemma conda_update_dirs_plain:
  "environ w = Map.empty \<Longrightarrow> conda_update_dirs w incs libs = Inr (incs, libs)"
  by (simp add: conda_update_dirs_def conda_cross_dirs_def conda_cuda12_dirs_def
      environ_get_def startswith_def)

lemma sample_probe_runs:
  "fst (build_and_run (sample_world Map.empty out rc g) good_compiler src libraries incs libs
          macros extra f) = Inr out"
  by (simp add: build_and_run_def conda_update_dirs_plain sample_world_def tempdir_def
      build_and_run_body_def good_compiler_def Let_def)

lemma sample_probe_fails:
  "fst (build_and_run (sample_world Map.empty out rc g) broken_compiler src libraries incs libs
          macros extra f) = Inl (External ''compile failed'')"
  by (simp add: build_and_run_def conda_update_dirs_plain sample_world_def tempdir_def
      build_and_run_body_def broken_compiler_def Let_def)

text \<open>
  Claim C3, as stated: no check modifies the settings object it receives.
  \<open>check_cub_version\<close> does: after a probe that prints \<open>200100\<close> the dictionary has one
  more entry in \<open>define_macros\<close>.
\<close>

theorem cub_check_changes_settings:
  "snd (snd (check_cub_version (sample_world Map.empty ''200100'' 0 []) good_compiler
               sample_settings (module_init empty_fs))) \<noteq> sample_settings"
proof -
  let ?w = "sample_world Map.empty ''200100'' 0 []"
  obtain f where "build_and_run ?w good_compiler cub_source [] (include_dirs sample_settings) []
          (Some (define_macros sample_settings)) [] (fs (module_init empty_fs)) = (Inr ''200100'', f)"
    using sample_probe_runs [of "''200100''" 0 "[]" cub_source "[]"
        "include_dirs sample_settings" "[]" "Some (define_macros sample_settings)" "[]"
        "fs (module_init empty_fs)"]
    by (cases "build_and_run ?w good_compiler cub_source [] (include_dirs sample_settings) []
          (Some (define_macros sample_settings)) [] (fs (module_init empty_fs))") simp
  moreover have "int_of ''200100'' = Inr 200100"
    by (simp add: int_parse_defs)
  ultimately have "define_macros (snd (snd (check_cub_version ?w good_compiler
               sample_settings (module_init empty_fs)))) = [(''CUPY_CUB_VERSION_CODE'', PInt 200100)]"
    by (simp add: check_cub_version_def cub_finish_def sample_settings_def)
  then show ?thesis by (auto simp: sample_settings_def)
qed

text \<open>
  Claim C3, amended: the checks for HIP, compute capabilities, Thrust, cuDNN, NCCL, NVTX,
  cuTENSOR and cuSPARSELt return the settings object exactly as they received it.
  \<open>check_cub_version\<close> and \<open>check_jitify_version\<close> append one entry to \<open>define_macros\<close>
  (\<open>CUPY_CUB_VERSION_CODE\<close>, respectively \<open>CUPY_JITIFY_VERSION_CODE\<close>, with the version
  just cached) and change nothing else; \<open>check_cub_version\<close> leaves the settings alone when
  it raises.
\<close>

theorem settings_frame:
  "snd (snd (check_hip_version w cc s st)) = s
   \<and> snd (snd (check_compute_capabilities w cc s st)) = s
   \<and> snd (snd (check_thrust_version w cc s st)) = s
   \<and> snd (snd (check_cudnn_version w cc s st)) = s
   \<and> snd (snd (check_nccl_version w cc s st)) = s
   \<and> snd (snd (check_nvtx w cc s st)) = s
   \<and> snd (snd (check_cutensor_version w cc s st)) = s
   \<and> snd (snd (check_cusparselt_version w cc s st)) = s
   \<and> (\<exists>r st' s'. check_cub_version w cc s st = (r, st', s')
         \<and> ((isl r \<and> s' = s)
             \<or> (\<exists>v. r = Inr True \<and> cub_version st' = Some v
                   \<and> s' = s\<lparr>define_macros :=
                             define_macros s @ [(''CUPY_CUB_VERSION_CODE'', PInt v)]\<rparr>)))
   \<and> (\<exists>r st' s' v. check_jitify_version w cc s st = (r, st', s')
         \<and> r = Inr True \<and> jitify_version st' = Some v
         \<and> s' = s\<lparr>define_macros :=
                    define_macros s @ [(''CUPY_JITIFY_VERSION_CODE'', v)]\<rparr>)"
proof -
  have 1: "snd (snd (check_hip_version w cc s st)) = s"
    by (simp add: check_hip_version_def Let_def split: prod.splits sum.splits)
  have 2: "snd (snd (check_compute_capabilities w cc s st)) = s"
    by (simp add: check_compute_capabilities_def split: prod.splits sum.splits)
  have 3: "snd (snd (check_thrust_version w cc s st)) = s"
    by (simp add: check_thrust_version_def split: prod.splits sum.splits)
  have 4: "snd (snd (check_cudnn_version w cc s st)) = s"
    by (simp add: check_cudnn_version_def Let_def split: prod.splits sum.splits)
  have 5: "snd (snd (check_nccl_version w cc s st)) = s"
    by (simp add: check_nccl_version_def split: prod.splits sum.splits)
  have 6: "snd (snd (check_nvtx w cc s st)) = s"
    by (simp add: check_nvtx_def)
  have 7: "snd (snd (check_cutensor_version w cc s st)) = s"
    by (simp add: check_cutensor_version_def Let_def split: prod.splits sum.splits)
  have 8: "snd (snd (check_cusparselt_version w cc s st)) = s"
    by (simp add: check_cusparselt_version_def split: prod.splits sum.splits)
  have 9: "\<exists>r st' s'. check_cub_version w cc s st = (r, st', s')
         \<and> ((isl r \<and> s' = s)
             \<or> (\<exists>v. r = Inr True \<and> cub_version st' = Some v
                   \<and> s' = s\<lparr>define_macros :=
                             define_macros s @ [(''CUPY_CUB_VERSION_CODE'', PInt v)]\<rparr>))"
    by (simp add: check_cub_version_def cub_finish_def split: prod.splits sum.splits)
  have 10: "\<exists>r st' s' v. check_jitify_version w cc s st = (r, st', s')
         \<and> r = Inr True \<and> jitify_version st' = Some v
         \<and> s' = s\<lparr>define_macros :=
                    define_macros s @ [(''CUPY_JITIFY_VERSION_CODE'', v)]\<rparr>"
    by (simp add: check_jitify_version_def jitify_finish_def split: sum.splits)
  show ?thesis by (intro conjI 1 2 3 4 5 6 7 8 9 10)
qed


section \<open>Version floors and failed probes\<close>

lemma str_int_examples:
  "str_int 7599 = ''7599''" "str_int 7600 = ''7600''" "str_int 304 = ''304''"
  by (simp_all add: str_int_def str_nat.simps digit_char_def)

lemma sample_probe_result:
  "\<exists>f. build_and_run (sample_world Map.empty out rc g) good_compiler src libraries incs libs
          macros extra f0 = (Inr out, f)"
  using sample_probe_runs [of out rc g src libraries incs libs macros extra f0]
  by (cases "build_and_run (sample_world Map.empty out rc g) good_compiler src libraries incs
               libs macros extra f0") simp

lemma sample_probe_failure:
  "\<exists>f. build_and_run (sample_world Map.empty out rc g) broken_compiler src libraries incs libs
          macros extra f0 = (Inl (External ''compile failed''), f)"
  using sample_probe_fails [of out rc g src libraries incs libs macros extra f0]
  by (cases "build_and_run (sample_world Map.empty out rc g) broken_compiler src libraries incs
               libs macros extra f0") simp

text \<open>
  Claim C5. cuDNN has the floor 7600 and HIP the floor 305. When the probe prints the floor
  itself the check caches it and returns \<open>True\<close>; when it prints the floor minus one the
  check caches it, prints the version-too-low warning and returns \<open>False\<close>, without raising.
\<close>

theorem version_floor_inclusive:
  "(build_and_run w cc cudnn_source [] (include_dirs s) [] None [] (fs st) = (Inr out, f) \<longrightarrow>
      (py_int out = Some 7600 \<longrightarrow>
         check_cudnn_version w cc s st
           = (Inr True, st\<lparr>fs := f, cudnn_version := Some 7600\<rparr>, s))
      \<and> (py_int out = Some 7599 \<longrightarrow>
         check_cudnn_version w cc s st
           = (Inr False,
              print_warning [''Unsupported cuDNN version: 7599'', ''cuDNN >=v7600 is required'']
                (st\<lparr>fs := f, cudnn_version := Some 7599\<rparr>), s)))
   \<and> (build_and_run w cc hip_source [] (include_dirs s) [] None [] (fs st) = (Inr out, f) \<longrightarrow>
      (py_int out = Some 305 \<longrightarrow>
         check_hip_version w cc s st
           = (Inr True, st\<lparr>fs := f, hip_version := Some 305\<rparr>, s))
      \<and> (py_int out = Some 304 \<longrightarrow>
         check_hip_version w cc s st
           = (Inr False,
              print_warning [''ROCm/HIP version is too old: 304'',
                             ''ROCm 3.5.0 or newer is required'']
                (st\<lparr>fs := f, hip_version := Some 304\<rparr>), s)))"
  by (simp add: check_cudnn_version_def check_hip_version_def int_of_def
      minimum_cudnn_version_def minimum_hip_version_def str_int_examples)

theorem version_floor_inclusive_witness:
  "py_int ''7600'' = Some 7600
   \<and> fst (check_cudnn_version (sample_world Map.empty ''7600'' 0 []) good_compiler
             sample_settings (module_init empty_fs)) = Inr True
   \<and> py_int ''7599'' = Some 7599
   \<and> fst (check_cudnn_version (sample_world Map.empty ''7599'' 0 []) good_compiler
             sample_settings (module_init empty_fs)) = Inr False
   \<and> py_int ''305'' = Some 305
   \<and> fst (check_hip_version (sample_world Map.empty ''305'' 0 []) good_compiler
             sample_settings (module_init empty_fs)) = Inr True
   \<and> py_int ''304'' = Some 304
   \<and> fst (check_hip_version (sample_world Map.empty ''304'' 0 []) good_compiler
             sample_settings (module_init empty_fs)) = Inr False"
proof -
  let ?st = "module_init empty_fs"
  have p: "py_int ''7600'' = Some 7600" "py_int ''7599'' = Some 7599"
    "py_int ''305'' = Some 305" "py_int ''304'' = Some 304"
    by (simp_all add: int_parse_defs)
  obtain f1 where b1: "build_and_run (sample_world Map.empty ''7600'' 0 []) good_compiler
      cudnn_source [] (include_dirs sample_settings) [] None [] (fs ?st) = (Inr ''7600'', f1)"
    using sample_probe_result by blast
  obtain f2 where b2: "build_and_run (sample_world Map.empty ''7599'' 0 []) good_compiler
      cudnn_source [] (include_dirs sample_settings) [] None [] (fs ?st) = (Inr ''7599'', f2)"
    using sample_probe_result by blast
  obtain f3 where b3: "build_and_run (sample_world Map.empty ''305'' 0 []) good_compiler
      hip_source [] (include_dirs sample_settings) [] None [] (fs ?st) = (Inr ''305'', f3)"
    using sample_probe_result by blast
  obtain f4 where b4: "build_and_run (sample_world Map.empty ''304'' 0 []) good_compiler
      hip_source [] (include_dirs sample_settings) [] None [] (fs ?st) = (Inr ''304'', f4)"
    using sample_probe_result by blast
  have c1: "fst (check_cudnn_version (sample_world Map.empty ''7600'' 0 []) good_compiler
             sample_settings ?st) = Inr True"
    using version_floor_inclusive [of "sample_world Map.empty ''7600'' 0 []" good_compiler
        sample_settings ?st "''7600''" f1] b1 p by simp
  have c2: "fst (check_cudnn_version (sample_world Map.empty ''7599'' 0 []) good_compiler
             sample_settings ?st) = Inr False"
    using version_floor_inclusive [of "sample_world Map.empty ''7599'' 0 []" good_compiler
        sample_settings ?st "''7599''" f2] b2 p by simp
  have c3: "fst (check_hip_version (sample_world Map.empty ''305'' 0 []) good_compiler
             sample_settings ?st) = Inr True"
    using version_floor_inclusive [of "sample_world Map.empty ''305'' 0 []" good_compiler
        sample_settings ?st "''305''" f3] b3 p by simp
  have c4: "fst (check_hip_version (sample_world Map.empty ''304'' 0 []) good_compiler
             sample_settings ?st) = Inr False"
    using version_floor_inclusive [of "sample_world Map.empty ''304'' 0 []" good_compiler
        sample_settings ?st "''304''" f4] b4 p by simp
  show ?thesis by (intro conjI p c1 c2 c3 c4)
qed

text \<open>
  Claim C9. For each check that goes through \<open>build_and_run\<close> (HIP, Thrust, cuDNN, NCCL,
  cuTENSOR, cuSPARSELt, compute capabilities): when the probe raises, the check prints one
  warning carrying the exception's text and returns \<open>False\<close>, and nothing else changes: in
  particular the cached value is what it was before (unset, if it was unset).
\<close>

theorem failed_probe_means_absent:
  "(build_and_run w cc hip_source [] (include_dirs s) [] None [] (fs st) = (Inl e, f) \<longrightarrow>
      check_hip_version w cc s st
        = (Inr False, print_warning [''Cannot check HIP version'', str_exn e] (st\<lparr>fs := f\<rparr>), s)
      \<and> hip_version (fst (snd (check_hip_version w cc s st))) = hip_version st)
   \<and> (build_and_run w cc thrust_source [] (include_dirs s) [] None [] (fs st) = (Inl e, f) \<longrightarrow>
      check_thrust_version w cc s st
        = (Inr False,
           print_warning [''Cannot check Thrust version'' @ nl @ str_exn e] (st\<lparr>fs := f\<rparr>), s)
      \<and> thrust_version (fst (snd (check_thrust_version w cc s st))) = thrust_version st)
   \<and> (build_and_run w cc cudnn_source [] (include_dirs s) [] None [] (fs st) = (Inl e, f) \<longrightarrow>
      check_cudnn_version w cc s st
        = (Inr False,
           print_warning [''Cannot check cuDNN version'' @ nl @ str_exn e] (st\<lparr>fs := f\<rparr>), s)
      \<and> cudnn_version (fst (snd (check_cudnn_version w cc s st))) = cudnn_version st)
   \<and> (build_and_run w cc nccl_source [] (include_dirs s) [] (Some (define_macros s)) [] (fs st)
         = (Inl e, f) \<longrightarrow>
      check_nccl_version w cc s st
        = (Inr False, print_warning [''Cannot include NCCL'' @ nl @ str_exn e] (st\<lparr>fs := f\<rparr>), s)
      \<and> nccl_version (fst (snd (check_nccl_version w cc s st))) = nccl_version st)
   \<and> (build_and_run w cc cutensor_source [] (include_dirs s) [] None [] (fs st) = (Inl e, f) \<longrightarrow>
      check_cutensor_version w cc s st
        = (Inr False,
           print_warning [''Cannot check cuTENSOR version'' @ nl @ str_exn e] (st\<lparr>fs := f\<rparr>), s)
      \<and> cutensor_version (fst (snd (check_cutensor_version w cc s st))) = cutensor_version st)
   \<and> (build_and_run w cc cusparselt_source [] (include_dirs s) [] None [] (fs st) = (Inl e, f) \<longrightarrow>
      check_cusparselt_version w cc s st
        = (Inr False,
           print_warning [''Cannot check cuSPARSELt version'' @ nl @ str_exn e] (st\<lparr>fs := f\<rparr>), s)
      \<and> cusparselt_version (fst (snd (check_cusparselt_version w cc s st)))
          = cusparselt_version st)
   \<and> (build_and_run w cc compute_capabilities_source [''cudart''] (include_dirs s)
         (library_dirs s) None [] (fs st) = (Inl e, f) \<longrightarrow>
      check_compute_capabilities w cc s st
        = (Inr False,
           print_warning [''Cannot check compute capability'' @ nl @ str_exn e] (st\<lparr>fs := f\<rparr>), s)
      \<and> compute_capabilities (fst (snd (check_compute_capabilities w cc s st)))
          = compute_capabilities st)"
  by (simp add: check_hip_version_def check_thrust_version_def check_cudnn_version_def
      check_nccl_version_def check_cutensor_version_def check_cusparselt_version_def
      check_compute_capabilities_def print_warning_def)

theorem failed_probe_means_absent_witness:
  "fst (check_hip_version (sample_world Map.empty [] 0 []) broken_compiler sample_settings (module_init empty_fs)) = Inr False
   \<and> hip_version (fst (snd (check_hip_version (sample_world Map.empty [] 0 []) broken_compiler sample_settings (module_init empty_fs)))) = None
   \<and> fst (check_thrust_version (sample_world Map.empty [] 0 []) broken_compiler sample_settings (module_init empty_fs)) = Inr False
   \<and> thrust_version (fst (snd (check_thrust_version (sample_world Map.empty [] 0 []) broken_compiler sample_settings (module_init empty_fs)))) = None
   \<and> fst (check_cudnn_version (sample_world Map.empty [] 0 []) broken_compiler sample_settings (module_init empty_fs)) = Inr False
   \<and> cudnn_version (fst (snd (check_cudnn_version (sample_world Map.empty [] 0 []) broken_compiler sample_settings (module_init empty_fs)))) = None
   \<and> fst (check_nccl_version (sample_world Map.empty [] 0 []) broken_compiler sample_settings (module_init empty_fs)) = Inr False
   \<and> nccl_version (fst (snd (check_nccl_version (sample_world Map.empty [] 0 []) broken_compiler sample_settings (module_init empty_fs)))) = None
   \<and> fst (check_cutensor_version (sample_world Map.empty [] 0 []) broken_compiler sample_settings (module_init empty_fs)) = Inr False
   \<and> cutensor_version (fst (snd (check_cutensor_version (sample_world Map.empty [] 0 []) broken_compiler sample_settings (module_init empty_fs)))) = None
   \<and> fst (check_cusparselt_version (sample_world Map.empty [] 0 []) broken_compiler sample_settings (module_init empty_fs)) = Inr False
   \<and> cusparselt_version (fst (snd (check_cusparselt_version (sample_world Map.empty [] 0 []) broken_compiler sample_settings (module_init empty_fs)))) = None
   \<and> fst (check_compute_capabilities (sample_world Map.empty [] 0 []) broken_compiler sample_settings (module_init empty_fs)) = Inr False
   \<and> compute_capabilities (fst (snd (check_compute_capabilities (sample_world Map.empty [] 0 []) broken_compiler sample_settings (module_init empty_fs)))) = None"
proof -
  let ?w = "sample_world Map.empty [] 0 []"
  let ?st = "module_init empty_fs"
  have init: "hip_version ?st = None" "thrust_version ?st = None" "cudnn_version ?st = None"
    "nccl_version ?st = None" "cutensor_version ?st = None" "cusparselt_version ?st = None"
    "compute_capabilities ?st = None"
    by (simp_all add: module_init_def)
  obtain f1 where b1: "build_and_run ?w broken_compiler hip_source []
      (include_dirs sample_settings) [] None [] (fs ?st)
      = (Inl (External ''compile failed''), f1)"
    using sample_probe_failure by blast
  have c1: "fst (check_hip_version ?w broken_compiler sample_settings ?st) = Inr False"
    "hip_version (fst (snd (check_hip_version ?w broken_compiler sample_settings ?st))) = None"
    using failed_probe_means_absent [of ?w broken_compiler sample_settings ?st
        "External ''compile failed''" f1] b1 init by (simp_all add: print_warning_def)
  obtain f2 where b2: "build_and_run ?w broken_compiler thrust_source []
      (include_dirs sample_settings) [] None [] (fs ?st)
      = (Inl (External ''compile failed''), f2)"
    using sample_probe_failure by blast
  have c2: "fst (check_thrust_version ?w broken_compiler sample_settings ?st) = Inr False"
    "thrust_version (fst (snd (check_thrust_version ?w broken_compiler sample_settings ?st))) = None"
    using failed_probe_means_absent [of ?w broken_compiler sample_settings ?st
        "External ''compile failed''" f2] b2 init by (simp_all add: print_warning_def)
  obtain f3 where b3: "build_and_run ?w broken_compiler cudnn_source []
      (include_dirs sample_settings) [] None [] (fs ?st)
      = (Inl (External ''compile failed''), f3)"
    using sample_probe_failure by blast
  have c3: "fst (check_cudnn_version ?w broken_compiler sample_settings ?st) = Inr False"
    "cudnn_version (fst (snd (check_cudnn_version ?w broken_compiler sample_settings ?st))) = None"
    using failed_probe_means_absent [of ?w broken_compiler sample_settings ?st
        "External ''compile failed''" f3] b3 init by (simp_all add: print_warning_def)
  obtain f4 where b4: "build_and_run ?w broken_compiler nccl_source []
      (include_dirs sample_settings) [] (Some (define_macros sample_settings)) [] (fs ?st)
      = (Inl (External ''compile failed''), f4)"
    using sample_probe_failure by blast
  have c4: "fst (check_nccl_version ?w broken_compiler sample_settings ?st) = Inr False"
    "nccl_version (fst (snd (check_nccl_version ?w broken_compiler sample_settings ?st))) = None"
    using failed_probe_means_absent [of ?w broken_compiler sample_settings ?st
        "External ''compile failed''" f4] b4 init by (simp_all add: print_warning_def)
  obtain f5 where b5: "build_and_run ?w broken_compiler cutensor_source []
      (include_dirs sample_settings) [] None [] (fs ?st)
      = (Inl (External ''compile failed''), f5)"
    using sample_probe_failure by blast
  have c5: "fst (check_cutensor_version ?w broken_compiler sample_settings ?st) = Inr False"
    "cutensor_version (fst (snd (check_cutensor_version ?w broken_compiler sample_settings ?st))) = None"
    using failed_probe_means_absent [of ?w broken_compiler sample_settings ?st
        "External ''compile failed''" f5] b5 init by (simp_all add: print_warning_def)
  obtain f6 where b6: "build_and_run ?w broken_compiler cusparselt_source []
      (include_dirs sample_settings) [] None [] (fs ?st)
      = (Inl (External ''compile failed''), f6)"
    using sample_probe_failure by blast
  have c6: "fst (check_cusparselt_version ?w broken_compiler sample_settings ?st) = Inr False"
    "cusparselt_version (fst (snd (check_cusparselt_version ?w broken_compiler sample_settings ?st))) = None"
    using failed_probe_means_absent [of ?w broken_compiler sample_settings ?st
        "External ''compile failed''" f6] b6 init by (simp_all add: print_warning_def)
  obtain f7 where b7: "build_and_run ?w broken_compiler compute_capabilities_source [''cudart'']
      (include_dirs sample_settings) (library_dirs sample_settings) None [] (fs ?st)
      = (Inl (External ''compile failed''), f7)"
    using sample_probe_failure by blast
  have c7: "fst (check_compute_capabilities ?w broken_compiler sample_settings ?st) = Inr False"
    "compute_capabilities (fst (snd (check_compute_capabilities ?w broken_compiler sample_settings ?st))) = None"
    using failed_probe_means_absent [of ?w broken_compiler sample_settings ?st
        "External ''compile failed''" f7] b7 init by (simp_all add: print_warning_def)
  show ?thesis by (intro conjI c1 c2 c3 c4 c5 c6 c7)
qed


section \<open>Compute capabilities\<close>

text \<open>
  When every token of the output is an integer literal, the list comprehension returns
  the integers, and their set is the set of the tokens' values.
\<close>

lemma int_list_all_integers:
  "\<forall>t\<in>set ts. py_int t \<noteq> None \<Longrightarrow>
     \<exists>ns. int_list ts = Inr ns \<and> set ns = {n. \<exists>t\<in>set ts. py_int t = Some n}"
proof (induction ts)
  case Nil
  then show ?case by simp
next
  case (Cons t ts)
  then obtain n where n: "py_int t = Some n" by auto
  from Cons obtain ns where ns: "int_list ts = Inr ns"
    "set ns = {n. \<exists>t\<in>set ts. py_int t = Some n}" by auto
  have "int_list (t # ts) = Inr (n # ns)"
    using n ns by (simp add: int_of_def)
  moreover have "set (n # ns) = {m. \<exists>u\<in>set (t # ts). py_int u = Some m}"
    using n ns by auto
  ultimately show ?case by blast
qed

lemma split_ws_examples:
  "split_ws ''75 75 86 '' = [''75'', ''75'', ''86'']" "split_ws [] = []"
  by (simp_all add: split_ws_def is_space_def)

lemma py_int_examples:
  "py_int ''75'' = Some 75" "py_int ''86'' = Some 86"
  by (simp_all add: int_parse_defs)

text \<open>
  Claim C6. When the probe program's output splits into integer tokens,
  \<open>check_compute_capabilities\<close> stores the set of their values (so duplicates collapse) and
  returns \<open>True\<close>. The output \<open>75 75 86 \<close> gives the set \<open>{75, 86}\<close>; empty output gives the
  empty set and \<open>True\<close>, not an error.
\<close>

theorem compute_capabilities_are_a_set:
  "build_and_run w cc compute_capabilities_source [''cudart''] (include_dirs s)
       (library_dirs s) None [] (fs st) = (Inr out, f) \<longrightarrow>
     ((\<forall>t\<in>set (split_ws out). py_int t \<noteq> None) \<longrightarrow>
        check_compute_capabilities w cc s st
          = (Inr True,
             st\<lparr>fs := f,
                compute_capabilities :=
                  Some {n. \<exists>t\<in>set (split_ws out). py_int t = Some n}\<rparr>, s))
     \<and> (out = ''75 75 86 '' \<longrightarrow>
        check_compute_capabilities w cc s st
          = (Inr True, st\<lparr>fs := f, compute_capabilities := Some {75, 86}\<rparr>, s))
     \<and> (out = [] \<longrightarrow>
        check_compute_capabilities w cc s st
          = (Inr True, st\<lparr>fs := f, compute_capabilities := Some {}\<rparr>, s))"
proof (intro impI conjI)
  assume b: "build_and_run w cc compute_capabilities_source [''cudart''] (include_dirs s)
       (library_dirs s) None [] (fs st) = (Inr out, f)"
  {
    assume "\<forall>t\<in>set (split_ws out). py_int t \<noteq> None"
    from int_list_all_integers [OF this] obtain ns where
      "int_list (split_ws out) = Inr ns"
      "set ns = {n. \<exists>t\<in>set (split_ws out). py_int t = Some n}" by blast
    with b show "check_compute_capabilities w cc s st
          = (Inr True,
             st\<lparr>fs := f,
                compute_capabilities :=
                  Some {n. \<exists>t\<in>set (split_ws out). py_int t = Some n}\<rparr>, s)"
      by (simp add: check_compute_capabilities_def)
  }
  {
    assume "out = ''75 75 86 ''"
    then have "int_list (split_ws out) = Inr [75, 75, 86]"
      by (simp add: split_ws_examples int_of_def py_int_examples)
    with b show "check_compute_capabilities w cc s st
          = (Inr True, st\<lparr>fs := f, compute_capabilities := Some {75, 86}\<rparr>, s)"
      by (simp add: check_compute_capabilities_def)
  }
  {
    assume "out = []"
    then have "int_list (split_ws out) = Inr []"
      by (simp add: split_ws_examples)
    with b show "check_compute_capabilities w cc s st
          = (Inr True, st\<lparr>fs := f, compute_capabilities := Some {}\<rparr>, s)"
      by (simp add: check_compute_capabilities_def)
  }
qed

theorem compute_capabilities_are_a_set_witness:
  "split_ws ''75 75 86 '' = [''75'', ''75'', ''86'']
   \<and> py_int ''75'' = Some 75 \<and> py_int ''86'' = Some 86
   \<and> fst (check_compute_capabilities (sample_world Map.empty ''75 75 86 '' 0 []) good_compiler
            sample_settings (module_init empty_fs)) = Inr True
   \<and> compute_capabilities
        (fst (snd (check_compute_capabilities (sample_world Map.empty ''75 75 86 '' 0 [])
                     good_compiler sample_settings (module_init empty_fs)))) = Some {75, 86}
   \<and> fst (check_compute_capabilities (sample_world Map.empty [] 0 []) good_compiler
            sample_settings (module_init empty_fs)) = Inr True
   \<and> compute_capabilities
        (fst (snd (check_compute_capabilities (sample_world Map.empty [] 0 [])
                     good_compiler sample_settings (module_init empty_fs)))) = Some {}"
proof -
  let ?st = "module_init empty_fs"
  let ?w = "sample_world Map.empty ''75 75 86 '' 0 []"
  let ?v = "sample_world Map.empty [] 0 []"
  obtain f1 where b1: "build_and_run ?w good_compiler compute_capabilities_source [''cudart'']
      (include_dirs sample_settings) (library_dirs sample_settings) None [] (fs ?st)
      = (Inr ''75 75 86 '', f1)"
    using sample_probe_result by blast
  obtain f2 where b2: "build_and_run ?v good_compiler compute_capabilities_source [''cudart'']
      (include_dirs sample_settings) (library_dirs sample_settings) None [] (fs ?st)
      = (Inr [], f2)"
    using sample_probe_result by blast
  have toks: "\<forall>t\<in>set (split_ws ''75 75 86 ''). py_int t \<noteq> None"
    by (simp add: split_ws_examples py_int_examples)
  have set_eq: "{n. \<exists>t\<in>set (split_ws ''75 75 86 ''). py_int t = Some n} = {75, 86}"
    by (auto simp: split_ws_examples py_int_examples)
  have c1: "check_compute_capabilities ?w good_compiler sample_settings ?st
      = (Inr True, ?st\<lparr>fs := f1, compute_capabilities := Some {75, 86}\<rparr>, sample_settings)"
    using compute_capabilities_are_a_set [of ?w good_compiler sample_settings ?st
        "''75 75 86 ''" f1] b1 toks set_eq by simp
  have c2: "check_compute_capabilities ?v good_compiler sample_settings ?st
      = (Inr True, ?st\<lparr>fs := f2, compute_capabilities := Some {}\<rparr>, sample_settings)"
    using compute_capabilities_are_a_set [of ?v good_compiler sample_settings ?st "[]" f2] b2
    by simp
  show ?thesis
    by (simp add: c1 c2 split_ws_examples py_int_examples)
qed


section \<open>The temporary workspace\<close>

text \<open>
  The source file and the linked binary are written below the workspace directory; the
  bodies of \<open>build_and_run\<close> and \<open>build_shlib\<close> create no directory and add only these
  files and the compiler's objects.
\<close>

lemma under_workspace_files:
  "under d (os_path_join d ''a.cpp'')" "under d (os_path_join d ''a'')"
  by (simp_all add: under_def os_path_join_def)

lemma build_and_run_body_frame:
  assumes "build_and_run_body w cc source libraries incs libs macros extra d f0 = (r, f1)"
  shows "dirs f1 = dirs f0 \<and> mkdtemp_calls f1 = mkdtemp_calls f0
         \<and> rmtree_calls f1 = rmtree_calls f0 \<and> files f0 \<subseteq> files f1
         \<and> files f1 \<subseteq> files f0 \<union> {p. under d p}
              \<union> (case compile cc [os_path_join d ''a.cpp''] d incs macros extra of
                    Inl e \<Rightarrow> {} | Inr objs \<Rightarrow> set objs)"
  using assms under_workspace_files [of d]
  by (auto simp: build_and_run_body_def write_file_def Let_def split: sum.splits)

lemma build_shlib_body_frame:
  assumes "build_shlib_body w cc source libraries incs libs macros extra d f0 = (r, f1)"
  shows "dirs f1 = dirs f0 \<and> mkdtemp_calls f1 = mkdtemp_calls f0
         \<and> rmtree_calls f1 = rmtree_calls f0 \<and> files f0 \<subseteq> files f1
         \<and> files f1 \<subseteq> files f0 \<union> {p. under d p}
              \<union> (case compile cc [os_path_join d ''a.cpp''] d incs macros extra of
                    Inl e \<Rightarrow> {} | Inr objs \<Rightarrow> set objs)"
  using assms under_workspace_files [of d]
  by (auto simp: build_shlib_body_def write_file_def Let_def split: sum.splits)

text \<open>
  What \<open>rmtree\<close> does in any case, and what it does when the operating system refuses
  neither the directory nor anything below it.
\<close>

lemma rmtree_effect:
  "mkdtemp_calls (rmtree w d f) = mkdtemp_calls f"
  "rmtree_calls (rmtree w d f) = rmtree_calls f @ [d]"
  "dirs (rmtree w d f) - {d} = dirs f - {d}"
  "files (rmtree w d f) = {p \<in> files f. \<not> under d p \<or> p \<in> undeletable w}"
  by (auto simp: rmtree_def Let_def)

lemma rmtree_when_not_refused:
  assumes "d \<notin> undeletable w" and "\<forall>p\<in>undeletable w. \<not> under d p"
  shows "dirs (rmtree w d f) = dirs f - {d}"
    and "files (rmtree w d f) = {p \<in> files f. \<not> under d p}"
  using assms by (auto simp: rmtree_def Let_def)

text \<open>The workspace discipline, for any body that leaves directories and logs alone.\<close>

lemma tempdir_frame:
  assumes run: "tempdir w body f = (r, f')"
    and body: "\<And>r1 f1. body (mkdtemp w)
                  (f\<lparr>dirs := insert (mkdtemp w) (dirs f),
                     mkdtemp_calls := mkdtemp_calls f @ [mkdtemp w]\<rparr>) = (r1, f1) \<Longrightarrow>
               dirs f1 = insert (mkdtemp w) (dirs f)
               \<and> mkdtemp_calls f1 = mkdtemp_calls f @ [mkdtemp w]
               \<and> rmtree_calls f1 = rmtree_calls f
               \<and> files f \<subseteq> files f1 \<and> files f1 \<subseteq> files f \<union> {p. under (mkdtemp w) p} \<union> X"
  shows "mkdtemp_calls f' = mkdtemp_calls f @ [mkdtemp w]
         \<and> rmtree_calls f' = rmtree_calls f @ [mkdtemp w]
         \<and> dirs f' - {mkdtemp w} = dirs f - {mkdtemp w}
         \<and> (mkdtemp w \<notin> undeletable w \<and> (\<forall>p\<in>undeletable w. \<not> under (mkdtemp w) p) \<longrightarrow>
              mkdtemp w \<notin> dirs f' \<and> dirs f' = dirs f - {mkdtemp w}
              \<and> (\<forall>p\<in>files f'. \<not> under (mkdtemp w) p)
              \<and> ((\<forall>p\<in>X. under (mkdtemp w) p) \<longrightarrow>
                   files f' = {p \<in> files f. \<not> under (mkdtemp w) p}))"
proof -
  let ?d = "mkdtemp w"
  let ?f0 = "f\<lparr>dirs := insert ?d (dirs f), mkdtemp_calls := mkdtemp_calls f @ [?d]\<rparr>"
  obtain r1 f1 where b: "body ?d ?f0 = (r1, f1)"
    by (cases "body ?d ?f0") auto
  from run b have f': "f' = rmtree w ?d f1"
    by (simp add: tempdir_def Let_def)
  note fr = body [OF b]
  have 1: "mkdtemp_calls f' = mkdtemp_calls f @ [?d]"
    using fr by (simp add: f' rmtree_effect)
  have 2: "rmtree_calls f' = rmtree_calls f @ [?d]"
    using fr by (simp add: f' rmtree_effect)
  have 3: "dirs f' - {?d} = dirs f - {?d}"
    using fr by (simp add: f' rmtree_effect)
  have 4: "?d \<notin> dirs f' \<and> dirs f' = dirs f - {?d}
              \<and> (\<forall>p\<in>files f'. \<not> under ?d p)
              \<and> ((\<forall>p\<in>X. under ?d p) \<longrightarrow> files f' = {p \<in> files f. \<not> under ?d p})"
    if ok: "?d \<notin> undeletable w \<and> (\<forall>p\<in>undeletable w. \<not> under ?d p)"
  proof -
    from ok have d: "dirs f' = dirs f1 - {?d}" and fl: "files f' = {p \<in> files f1. \<not> under ?d p}"
      unfolding f' by (simp_all add: rmtree_when_not_refused)
    from d fl fr show ?thesis by auto
  qed
  from 1 2 3 4 show ?thesis by blast
qed

text \<open>
  Claim C7, as stated: every invocation of \<open>build_and_run\<close> creates exactly one temporary
  workspace directory, and the directory does not exist after the call. Neither holds for
  every invocation. Both functions first call \<open>conda_update_dirs\<close>, which reads
  \<open>os.environ["BUILD_PREFIX"]\<close> when \<open>CONDA_BUILD_CROSS_COMPILATION\<close> is \<open>1\<close>; with that
  variable missing the call raises \<open>KeyError\<close> before \<open>_tempdir\<close> is entered, and no
  workspace is created at all. And the cleanup is \<open>rmtree(temp_dir, ignore_errors=True)\<close>:
  when the operating system refuses to delete the directory, the call still returns
  normally and the directory is still there.
\<close>

theorem no_workspace_when_path_resolution_raises:
  "build_and_run (sample_world [''CONDA_BUILD_CROSS_COMPILATION'' \<mapsto> ''1''] [] 0 [])
       good_compiler hip_source [] [] [] None [] empty_fs
     = (Inl (KeyError ''BUILD_PREFIX''), empty_fs)
   \<and> mkdtemp_calls empty_fs = []
   \<and> ''/tmp/tmpk3x9''
       \<in> dirs (snd (build_and_run
                      ((sample_world Map.empty [] 0 [])\<lparr>undeletable := {''/tmp/tmpk3x9''}\<rparr>)
                      good_compiler hip_source [] [] [] None [] empty_fs))"
proof (intro conjI)
  show "build_and_run (sample_world [''CONDA_BUILD_CROSS_COMPILATION'' \<mapsto> ''1''] [] 0 [])
       good_compiler hip_source [] [] [] None [] empty_fs
     = (Inl (KeyError ''BUILD_PREFIX''), empty_fs)"
    by (simp add: build_and_run_def conda_update_dirs_def conda_cross_dirs_def
        environ_get_def environ_item_def startswith_def sample_world_def int_parse_defs)
  show "mkdtemp_calls empty_fs = []"
    by (simp add: empty_fs_def)
  have "conda_update_dirs ((sample_world Map.empty [] 0 [])\<lparr>undeletable := {''/tmp/tmpk3x9''}\<rparr>)
          [] [] = Inr ([], [])"
    by (simp add: conda_update_dirs_plain sample_world_def)
  then show "''/tmp/tmpk3x9''
       \<in> dirs (snd (build_and_run
                      ((sample_world Map.empty [] 0 [])\<lparr>undeletable := {''/tmp/tmpk3x9''}\<rparr>)
                      good_compiler hip_source [] [] [] None [] empty_fs))"
    by (simp add: build_and_run_def tempdir_def rmtree_def build_and_run_body_def
        good_compiler_def sample_world_def Let_def write_file_def empty_fs_def)
qed

text \<open>
  Claim C7, amended. When \<open>conda_update_dirs\<close> raises, \<open>build_and_run\<close> and \<open>build_shlib\<close>
  raise the same exception and leave the file system as it was: no workspace is created.
  When it returns, the call creates exactly one temporary directory and calls \<open>rmtree\<close> on
  it exactly once, on every exit path (normal return, compile, link or execution failure),
  and no other directory changes. If the operating system refuses neither the directory
  nor anything below it, then afterwards neither the directory nor any file below it
  exists; and if moreover the compiler puts its object files below the output directory it
  is given, every file the call generated was inside the workspace: the files outside it
  are as before.
\<close>

theorem workspace_is_removed:
  "(conda_update_dirs w incs0 libs0 = Inl e \<longrightarrow>
      build_and_run w cc source libraries incs0 libs0 macros extra f = (Inl e, f)
      \<and> build_shlib w cc source libraries incs0 libs0 macros extra f = (Inl e, f))
   \<and> (conda_update_dirs w incs0 libs0 = Inr (incs, libs) \<longrightarrow>
     (build_and_run w cc source libraries incs0 libs0 macros extra f = (r, f') \<longrightarrow>
        mkdtemp_calls f' = mkdtemp_calls f @ [mkdtemp w]
        \<and> rmtree_calls f' = rmtree_calls f @ [mkdtemp w]
        \<and> dirs f' - {mkdtemp w} = dirs f - {mkdtemp w}
        \<and> (mkdtemp w \<notin> undeletable w \<and> (\<forall>p\<in>undeletable w. \<not> under (mkdtemp w) p) \<longrightarrow>
             mkdtemp w \<notin> dirs f' \<and> dirs f' = dirs f - {mkdtemp w}
             \<and> (\<forall>p\<in>files f'. \<not> under (mkdtemp w) p)
             \<and> ((\<forall>objs. compile cc [os_path_join (mkdtemp w) ''a.cpp''] (mkdtemp w) incs
                             macros extra = Inr objs
                          \<longrightarrow> (\<forall>p\<in>set objs. under (mkdtemp w) p))
                  \<longrightarrow> files f' = {p \<in> files f. \<not> under (mkdtemp w) p})))
     \<and> (build_shlib w cc source libraries incs0 libs0 macros extra f = (u, g') \<longrightarrow>
        mkdtemp_calls g' = mkdtemp_calls f @ [mkdtemp w]
        \<and> rmtree_calls g' = rmtree_calls f @ [mkdtemp w]
        \<and> dirs g' - {mkdtemp w} = dirs f - {mkdtemp w}
        \<and> (mkdtemp w \<notin> undeletable w \<and> (\<forall>p\<in>undeletable w. \<not> under (mkdtemp w) p) \<longrightarrow>
             mkdtemp w \<notin> dirs g' \<and> dirs g' = dirs f - {mkdtemp w}
             \<and> (\<forall>p\<in>files g'. \<not> under (mkdtemp w) p)
             \<and> ((\<forall>objs. compile cc [os_path_join (mkdtemp w) ''a.cpp''] (mkdtemp w) incs
                             macros extra = Inr objs
                          \<longrightarrow> (\<forall>p\<in>set objs. under (mkdtemp w) p))
                  \<longrightarrow> files g' = {p \<in> files f. \<not> under (mkdtemp w) p}))))"
proof (intro conjI impI)
  assume "conda_update_dirs w incs0 libs0 = Inl e"
  then show "build_and_run w cc source libraries incs0 libs0 macros extra f = (Inl e, f)"
    and "build_shlib w cc source libraries incs0 libs0 macros extra f = (Inl e, f)"
    by (simp_all add: build_and_run_def build_shlib_def)
next
  let ?d = "mkdtemp w"
  let ?X = "case compile cc [os_path_join ?d ''a.cpp''] ?d incs macros extra of
              Inl e \<Rightarrow> {} | Inr objs \<Rightarrow> set objs"
  let ?ok = "?d \<notin> undeletable w \<and> (\<forall>p\<in>undeletable w. \<not> under ?d p)"
  let ?contract = "\<forall>objs. compile cc [os_path_join ?d ''a.cpp''] ?d incs macros extra = Inr objs
                     \<longrightarrow> (\<forall>p\<in>set objs. under ?d p)"
  assume conda: "conda_update_dirs w incs0 libs0 = Inr (incs, libs)"
  have X: "?contract \<Longrightarrow> \<forall>p\<in>?X. under ?d p"
    by (auto split: sum.splits)
  {
    assume "build_and_run w cc source libraries incs0 libs0 macros extra f = (r, f')"
    with conda have run:
      "tempdir w (build_and_run_body w cc source libraries incs libs macros extra) f = (r, f')"
      by (simp add: build_and_run_def)
    have fr: "mkdtemp_calls f' = mkdtemp_calls f @ [?d]
         \<and> rmtree_calls f' = rmtree_calls f @ [?d]
         \<and> dirs f' - {?d} = dirs f - {?d}
         \<and> (?ok \<longrightarrow> ?d \<notin> dirs f' \<and> dirs f' = dirs f - {?d}
              \<and> (\<forall>p\<in>files f'. \<not> under ?d p)
              \<and> ((\<forall>p\<in>?X. under ?d p) \<longrightarrow> files f' = {p \<in> files f. \<not> under ?d p}))"
      by (rule tempdir_frame [OF run]) (use build_and_run_body_frame in fastforce)
    from fr show "mkdtemp_calls f' = mkdtemp_calls f @ [?d]" by blast
    from fr show "rmtree_calls f' = rmtree_calls f @ [?d]" by blast
    from fr show "dirs f' - {?d} = dirs f - {?d}" by blast
    { assume ok: ?ok
      from fr ok show "?d \<notin> dirs f'" by blast
      from fr ok show "dirs f' = dirs f - {?d}" by blast
      from fr ok show "\<forall>p\<in>files f'. \<not> under ?d p" by blast
      { assume ?contract
        from X [OF this] fr ok show "files f' = {p \<in> files f. \<not> under ?d p}" by blast } }
  }
  {
    assume "build_shlib w cc source libraries incs0 libs0 macros extra f = (u, g')"
    with conda have run:
      "tempdir w (build_shlib_body w cc source libraries incs libs macros extra) f = (u, g')"
      by (simp add: build_shlib_def)
    have fr: "mkdtemp_calls g' = mkdtemp_calls f @ [?d]
         \<and> rmtree_calls g' = rmtree_calls f @ [?d]
         \<and> dirs g' - {?d} = dirs f - {?d}
         \<and> (?ok \<longrightarrow> ?d \<notin> dirs g' \<and> dirs g' = dirs f - {?d}
              \<and> (\<forall>p\<in>files g'. \<not> under ?d p)
              \<and> ((\<forall>p\<in>?X. under ?d p) \<longrightarrow> files g' = {p \<in> files f. \<not> under ?d p}))"
      by (rule tempdir_frame [OF run]) (use build_shlib_body_frame in fastforce)
    from fr show "mkdtemp_calls g' = mkdtemp_calls f @ [?d]" by blast
    from fr show "rmtree_calls g' = rmtree_calls f @ [?d]" by blast
    from fr show "dirs g' - {?d} = dirs f - {?d}" by blast
    { assume ok: ?ok
      from fr ok show "?d \<notin> dirs g'" by blast
      from fr ok show "dirs g' = dirs f - {?d}" by blast
      from fr ok show "\<forall>p\<in>files g'. \<not> under ?d p" by blast
      { assume ?contract
        from X [OF this] fr ok show "files g' = {p \<in> files f. \<not> under ?d p}" by blast } }
  }
qed

theorem workspace_is_removed_witness:
  "conda_update_dirs (sample_world Map.empty [] 0 []) [] [] = Inr ([], [])
   \<and> mkdtemp (sample_world Map.empty [] 0 []) = ''/tmp/tmpk3x9''
   \<and> undeletable (sample_world Map.empty [] 0 []) = {}
   \<and> compile good_compiler [''/tmp/tmpk3x9/a.cpp''] ''/tmp/tmpk3x9'' [] None []
        = Inr [''/tmp/tmpk3x9/a.o'']
   \<and> under ''/tmp/tmpk3x9'' ''/tmp/tmpk3x9/a.o''
   \<and> mkdtemp_calls (snd (build_and_run (sample_world Map.empty [] 0 []) good_compiler
                            hip_source [] [] [] None [] empty_fs)) = [''/tmp/tmpk3x9'']
   \<and> rmtree_calls (snd (build_and_run (sample_world Map.empty [] 0 []) good_compiler
                            hip_source [] [] [] None [] empty_fs)) = [''/tmp/tmpk3x9'']
   \<and> dirs (snd (build_and_run (sample_world Map.empty [] 0 []) good_compiler
                            hip_source [] [] [] None [] empty_fs)) = {}
   \<and> files (snd (build_and_run (sample_world Map.empty [] 0 []) good_compiler
                            hip_source [] [] [] None [] empty_fs)) = {}
   \<and> mkdtemp_calls (snd (build_shlib (sample_world Map.empty [] 0 []) broken_compiler
                            hip_source [] [] [] None [] empty_fs)) = [''/tmp/tmpk3x9'']
   \<and> rmtree_calls (snd (build_shlib (sample_world Map.empty [] 0 []) broken_compiler
                            hip_source [] [] [] None [] empty_fs)) = [''/tmp/tmpk3x9'']
   \<and> dirs (snd (build_shlib (sample_world Map.empty [] 0 []) broken_compiler
                            hip_source [] [] [] None [] empty_fs)) = {}
   \<and> files (snd (build_shlib (sample_world Map.empty [] 0 []) broken_compiler
                            hip_source [] [] [] None [] empty_fs)) = {}
   \<and> conda_update_dirs (sample_world [''CONDA_BUILD_CROSS_COMPILATION'' \<mapsto> ''1''] [] 0 [])
        [] [] = Inl (KeyError ''BUILD_PREFIX'')
   \<and> build_shlib (sample_world [''CONDA_BUILD_CROSS_COMPILATION'' \<mapsto> ''1''] [] 0 [])
        broken_compiler hip_source [] [] [] None [] empty_fs
       = (Inl (KeyError ''BUILD_PREFIX''), empty_fs)"
proof -
  let ?w = "sample_world Map.empty [] 0 []"
  let ?x = "sample_world [''CONDA_BUILD_CROSS_COMPILATION'' \<mapsto> ''1''] [] 0 []"
  have d: "mkdtemp ?w = ''/tmp/tmpk3x9''" and un: "undeletable ?w = {}"
    by (simp_all add: sample_world_def)
  have conda: "conda_update_dirs ?w [] [] = Inr ([], [])"
    by (simp add: conda_update_dirs_plain sample_world_def)
  have raises: "conda_update_dirs ?x [] [] = Inl (KeyError ''BUILD_PREFIX'')"
    by (simp add: conda_update_dirs_def conda_cross_dirs_def environ_get_def environ_item_def
        startswith_def sample_world_def int_parse_defs)
  have objs: "compile good_compiler [''/tmp/tmpk3x9/a.cpp''] ''/tmp/tmpk3x9'' [] None []
        = Inr [''/tmp/tmpk3x9/a.o'']"
    by (simp add: good_compiler_def os_path_join_def)
  have u: "under ''/tmp/tmpk3x9'' ''/tmp/tmpk3x9/a.o''"
    by (simp add: under_def os_path_join_def)
  have join: "os_path_join ''/tmp/tmpk3x9'' ''a.cpp'' = ''/tmp/tmpk3x9/a.cpp''"
    by (simp add: os_path_join_def)
  have good: "\<forall>objs. compile good_compiler [os_path_join (mkdtemp ?w) ''a.cpp''] (mkdtemp ?w)
                  [] None [] = Inr objs \<longrightarrow> (\<forall>p\<in>set objs. under (mkdtemp ?w) p)"
    using objs u by (simp add: d join)
  have broken: "\<forall>objs. compile broken_compiler [os_path_join (mkdtemp ?w) ''a.cpp''] (mkdtemp ?w)
                  [] None [] = Inr objs \<longrightarrow> (\<forall>p\<in>set objs. under (mkdtemp ?w) p)"
    by (simp add: broken_compiler_def)
  have e: "mkdtemp_calls empty_fs = []" "rmtree_calls empty_fs = []" "dirs empty_fs = {}"
    "files empty_fs = {}"
    by (simp_all add: empty_fs_def)
  let ?run = "build_and_run ?w good_compiler hip_source [] [] [] None [] empty_fs"
  let ?lib = "build_shlib ?w broken_compiler hip_source [] [] [] None [] empty_fs"
  have a: "mkdtemp_calls (snd ?run) = [''/tmp/tmpk3x9'']
           \<and> rmtree_calls (snd ?run) = [''/tmp/tmpk3x9'']
           \<and> dirs (snd ?run) = {} \<and> files (snd ?run) = {}"
    using workspace_is_removed [of ?w "[]" "[]" _ good_compiler hip_source "[]" None
        "[]" empty_fs "[]" "[]" "fst ?run" "snd ?run"] conda good
    by (simp add: d e un)
  have b: "mkdtemp_calls (snd ?lib) = [''/tmp/tmpk3x9'']
           \<and> rmtree_calls (snd ?lib) = [''/tmp/tmpk3x9'']
           \<and> dirs (snd ?lib) = {} \<and> files (snd ?lib) = {}"
    using workspace_is_removed [of ?w "[]" "[]" _ broken_compiler hip_source "[]" None
        "[]" empty_fs "[]" "[]" _ _ "fst ?lib" "snd ?lib"] conda broken
    by (simp add: d e un)
  have c: "build_shlib ?x broken_compiler hip_source [] [] [] None [] empty_fs
             = (Inl (KeyError ''BUILD_PREFIX''), empty_fs)"
    using workspace_is_removed [of ?x "[]" "[]" "KeyError ''BUILD_PREFIX''" broken_compiler
        hip_source "[]" None "[]" empty_fs] raises
    by simp
  from conda d un objs u a b raises c show ?thesis by simp
qed

section \<open>The CUB version from a git tag\<close>

text \<open>
  \<open>int\<close> accepts a decimal numeral and returns the number it denotes; it rejects a numeral
  followed by \<open>-\<close> and more text, which is what sends \<open>check_cub_version\<close> into the branch
  for local commits.
\<close>

lemma digit_is_plain:
  assumes "is_digit c"
  shows "\<not> is_space c" "c \<noteq> CHR ''.''" "c \<noteq> CHR ''-''" "c \<noteq> CHR ''+''" "c \<noteq> CHR ''v''"
    "c \<noteq> CHR ''_''"
  using assms by (auto simp: is_digit_def is_space_def)

lemma parse_digits_all_digits:
  "list_all is_digit ds \<Longrightarrow>
     parse_digits acc ds = Some (foldl (\<lambda>a c. a * 10 + digit_val c) acc ds)"
  by (induction acc ds rule: parse_digits.induct) simp_all

lemma parse_digits_stops_at_dash:
  "list_all is_digit ds \<Longrightarrow> parse_digits acc (ds @ CHR ''-'' # r) = None"
proof (induction ds arbitrary: acc)
  case Nil
  show ?case by (cases r) (simp_all add: is_digit_def)
next
  case (Cons c ds)
  then show ?case by (cases ds) simp_all
qed

lemma strip_number_prefix:
  assumes "is_digit c"
  shows "\<exists>r'. strip (c # cs @ CHR ''-'' # r) = c # cs @ CHR ''-'' # r'"
proof -
  have front: "dropWhile is_space (c # cs @ CHR ''-'' # r) = c # cs @ CHR ''-'' # r"
    using digit_is_plain(1) [OF assms] by simp
  have "rev (c # cs @ CHR ''-'' # r) = rev r @ (CHR ''-'' # rev cs @ [c])"
    by simp
  moreover have "\<exists>q. dropWhile is_space (rev r @ (CHR ''-'' # rev cs @ [c]))
                     = q @ (CHR ''-'' # rev cs @ [c])"
  proof (cases "\<forall>x\<in>set (rev r). is_space x")
    case True
    have "dropWhile is_space (rev r @ (CHR ''-'' # rev cs @ [c]))
                 = dropWhile is_space (CHR ''-'' # rev cs @ [c])"
      by (rule dropWhile_append2) (use True in blast)
    moreover have "dropWhile is_space (CHR ''-'' # rev cs @ [c]) = CHR ''-'' # rev cs @ [c]"
      by (simp add: is_space_def)
    ultimately have "dropWhile is_space (rev r @ (CHR ''-'' # rev cs @ [c]))
                 = [] @ (CHR ''-'' # rev cs @ [c])"
      by simp
    then show ?thesis by blast
  next
    case False
    then obtain x where "x \<in> set (rev r)" "\<not> is_space x" by blast
    then have "dropWhile is_space (rev r @ (CHR ''-'' # rev cs @ [c]))
                 = dropWhile is_space (rev r) @ (CHR ''-'' # rev cs @ [c])"
      by (rule dropWhile_append1)
    then show ?thesis by blast
  qed
  ultimately obtain q where
    "dropWhile is_space (rev (c # cs @ CHR ''-'' # r)) = q @ (CHR ''-'' # rev cs @ [c])"
    by metis
  then have "strip (c # cs @ CHR ''-'' # r) = c # cs @ CHR ''-'' # rev q"
    unfolding strip_def front by simp
  then show ?thesis by blast
qed

lemma strip_number:
  assumes "is_number s"
  shows "strip s = s"
proof -
  from assms obtain c cs where s: "s = c # cs" and c: "is_digit c" and cs: "list_all is_digit cs"
    by (cases s) (auto simp: is_number_def)
  have ns: "\<not> is_space (last s)"
    using assms digit_is_plain(1) by (auto simp: is_number_def list_all_iff)
  obtain a l where al: "rev s = a # l"
    using s by (cases "rev s") auto
  from al have "a = last s"
    using s by (metis hd_rev list.sel(1))
  with ns have "dropWhile is_space (a # l) = a # l"
    by simp
  then have "dropWhile is_space (rev s) = rev s"
    unfolding al .
  moreover have "dropWhile is_space s = s"
    using s c digit_is_plain(1) by simp
  ultimately show ?thesis by (simp add: strip_def)
qed

lemma py_int_number:
  assumes "is_number s"
  shows "py_int s = Some (dec_val s)"
proof -
  from assms obtain c cs where s: "s = c # cs" and c: "is_digit c" and cs: "list_all is_digit cs"
    by (cases s) (auto simp: is_number_def)
  show ?thesis
    using strip_number [OF assms] c cs digit_is_plain [OF c]
    by (simp add: py_int_def s parse_nat_def parse_digits_all_digits dec_val_def)
qed

lemma py_int_number_with_suffix:
  assumes "is_number z"
  shows "py_int (z @ CHR ''-'' # r) = None"
proof -
  from assms obtain c cs where z: "z = c # cs" and c: "is_digit c" and cs: "list_all is_digit cs"
    by (cases z) (auto simp: is_number_def)
  from strip_number_prefix [OF c, of cs r] obtain r' where
    "strip (z @ CHR ''-'' # r) = c # cs @ CHR ''-'' # r'" by (auto simp: z)
  then show ?thesis
    using c cs digit_is_plain [OF c]
    by (simp add: py_int_def parse_nat_def parse_digits_stops_at_dash)
qed

lemma split_on_nonempty: "split_on sep s \<noteq> []"
  by (induction s) (auto split: list.splits)

lemma split_on_no_sep: "sep \<notin> set a \<Longrightarrow> split_on sep a = [a]"
  by (induction a) auto

lemma split_on_first_field:
  "sep \<notin> set a \<Longrightarrow> split_on sep (a @ sep # b) = a # split_on sep b"
  by (induction a) auto

lemma split_on_prefix:
  "sep \<notin> set a \<Longrightarrow>
     \<exists>u us. split_on sep b = u # us \<and> split_on sep (a @ b) = (a @ u) # us"
proof (induction a)
  case Nil
  then show ?case using split_on_nonempty [of sep b] by (cases "split_on sep b") auto
next
  case (Cons c a)
  then show ?case by auto
qed

lemma number_has_no:
  assumes "is_number s"
  shows "CHR ''.'' \<notin> set s" "CHR ''-'' \<notin> set s" "\<not> startswith (s @ r) ''v''"
proof -
  from assms have d: "\<forall>c\<in>set s. is_digit c" "s \<noteq> []"
    by (auto simp: is_number_def list_all_iff)
  show "CHR ''.'' \<notin> set s" "CHR ''-'' \<notin> set s"
    using d digit_is_plain by blast+
  from d obtain c cs where "s = c # cs" "is_digit c" by (cases s) auto
  then show "\<not> startswith (s @ r) ''v''"
    using digit_is_plain(5) by (auto simp: startswith_def)
qed

text \<open>
  The fallback on a tag whose first two fields are numerals, and on the two tag formats.
\<close>

lemma item_at_simps:
  "item_at (a # xs) 0 = Inr a" "item_at (a # b # xs) 1 = Inr b"
  "item_at (a # b # xs) (Suc 0) = Inr b" "item_at (a # b # c # xs) 2 = Inr c"
  by (simp_all add: item_at_def)

lemma split_three_numbers:
  assumes "is_number x" "is_number y"
  shows "split_on (CHR ''.'') (x @ ''.'' @ y @ ''.'' @ r) = x # y # split_on (CHR ''.'') r"
  using number_has_no(1) [OF assms(1)] number_has_no(1) [OF assms(2)]
  by (simp add: split_on_first_field)

lemma cub_version_from_tag_fields:
  assumes "is_number x" "is_number y"
    and "split_on (CHR ''.'') r = t2 # ts"
  shows "cub_version_from_tag (x @ ''.'' @ y @ ''.'' @ r)
         = (case py_int t2 of
              Some c \<Rightarrow> Inr (dec_val x * 100000 + dec_val y * 100 + c)
            | None \<Rightarrow>
               (let local_patch = split_on (CHR ''-'') t2
                in case item_at local_patch 0 of Inl e \<Rightarrow> Inl e | Inr p0 \<Rightarrow>
                   (case int_of p0 of Inl e \<Rightarrow> Inl e | Inr n0 \<Rightarrow>
                   (case item_at local_patch 1 of Inl e \<Rightarrow> Inl e | Inr p1 \<Rightarrow>
                   (case int_of p1 of Inl e \<Rightarrow> Inl e | Inr n1 \<Rightarrow>
                      Inr (dec_val x * 100000 + dec_val y * 100 + (n0 + n1)))))))"
proof -
  have nv: "\<not> startswith (x @ ''.'' @ y @ ''.'' @ r) ''v''"
    by (rule number_has_no(3) [OF assms(1)])
  have sp: "split_on (CHR ''.'') (x @ ''.'' @ y @ ''.'' @ r) = x # y # t2 # ts"
    using split_three_numbers [OF assms(1,2)] assms(3) by simp
  show ?thesis
    unfolding cub_version_from_tag_def
    using nv sp py_int_number [OF assms(1)] py_int_number [OF assms(2)]
    by (simp add: item_at_simps int_of_def Let_def)
qed

lemma cub_version_plain_tag:
  assumes "is_number x" "is_number y" "is_number z"
  shows "cub_version_from_tag (x @ ''.'' @ y @ ''.'' @ z)
         = Inr (dec_val x * 100000 + dec_val y * 100 + dec_val z)"
proof -
  have "split_on (CHR ''.'') z = z # []"
    using number_has_no(1) [OF assms(3)] by (simp add: split_on_no_sep)
  from cub_version_from_tag_fields [OF assms(1,2) this] py_int_number [OF assms(3)]
  show ?thesis by simp
qed

lemma cub_version_commits_tag:
  assumes "is_number x" "is_number y" "is_number z" "is_number n"
  shows "cub_version_from_tag (x @ ''.'' @ y @ ''.'' @ z @ ''-'' @ n @ ''-g'' @ h)
         = Inr (dec_val x * 100000 + dec_val y * 100 + dec_val z + dec_val n)"
proof -
  let ?a = "z @ ''-'' @ n @ ''-g''"
  have "CHR ''.'' \<notin> set ?a"
    using number_has_no(1) [OF assms(3)] number_has_no(1) [OF assms(4)] by simp
  from split_on_prefix [OF this, of h] obtain u us where
    sp: "split_on (CHR ''.'') (?a @ h) = (?a @ u) # us" by blast
  have t2: "?a @ u = z @ CHR ''-'' # (n @ CHR ''-'' # CHR ''g'' # u)"
    by simp
  have none: "py_int (?a @ u) = None"
    unfolding t2 by (rule py_int_number_with_suffix [OF assms(3)])
  have "split_on (CHR ''-'') (?a @ u) = z # n # split_on (CHR ''-'') (CHR ''g'' # u)"
    unfolding t2
    by (simp only: split_on_first_field [OF number_has_no(2) [OF assms(3)]]
        split_on_first_field [OF number_has_no(2) [OF assms(4)]])
  then obtain rest where lp: "split_on (CHR ''-'') (?a @ u) = z # n # rest"
    by blast
  have "cub_version_from_tag (x @ ''.'' @ y @ ''.'' @ (?a @ h))
         = Inr (dec_val x * 100000 + dec_val y * 100 + (dec_val z + dec_val n))"
    unfolding cub_version_from_tag_fields [OF assms(1,2) sp]
    using none lp py_int_number [OF assms(3)] py_int_number [OF assms(4)]
    by (simp add: item_at_simps int_of_def Let_def)
  then show ?thesis by simp
qed

lemma cub_version_v_prefix:
  assumes "is_number x"
  shows "cub_version_from_tag (''v'' @ x @ r) = cub_version_from_tag (x @ r)"
  using number_has_no(3) [OF assms, of r]
  by (simp add: cub_version_from_tag_def startswith_def)

text \<open>
  Claim C8. When the compile probe of \<open>check_cub_version\<close> raises and \<open>git describe --tags\<close>
  succeeds, a tag \<open>X.Y.Z\<close> (with or without a leading \<open>v\<close>) is cached as
  \<open>X*100000 + Y*100 + Z\<close>, and a tag \<open>X.Y.Z-N-g<hash>\<close> as \<open>X*100000 + Y*100 + Z + N\<close>; the
  check returns \<open>True\<close> and publishes the same number as \<open>CUPY_CUB_VERSION_CODE\<close>.
\<close>

theorem cub_version_from_git_tag:
  "build_and_run w cc cub_source [] (include_dirs s) [] (Some (define_macros s)) [] (fs st)
     = (Inl e, f) \<longrightarrow>
   subprocess_run w ''git describe --tags'' (os_path_join (source_root w) ''third_party/cccl'')
     = Inr a \<longrightarrow>
   returncode a = 0 \<longrightarrow> decode (stdout a) = Inr t \<longrightarrow>
   is_number x \<and> is_number y \<and> is_number z \<and> is_number n \<longrightarrow>
     ((drop_last t = x @ ''.'' @ y @ ''.'' @ z
         \<or> drop_last t = ''v'' @ x @ ''.'' @ y @ ''.'' @ z) \<longrightarrow>
        check_cub_version w cc s st
          = (Inr True,
             st\<lparr>fs := f,
                cub_version := Some (dec_val x * 100000 + dec_val y * 100 + dec_val z)\<rparr>,
             s\<lparr>define_macros := define_macros s
                  @ [(''CUPY_CUB_VERSION_CODE'',
                      PInt (dec_val x * 100000 + dec_val y * 100 + dec_val z))]\<rparr>))
     \<and> ((drop_last t = x @ ''.'' @ y @ ''.'' @ z @ ''-'' @ n @ ''-g'' @ h
         \<or> drop_last t = ''v'' @ x @ ''.'' @ y @ ''.'' @ z @ ''-'' @ n @ ''-g'' @ h) \<longrightarrow>
        check_cub_version w cc s st
          = (Inr True,
             st\<lparr>fs := f,
                cub_version :=
                  Some (dec_val x * 100000 + dec_val y * 100 + dec_val z + dec_val n)\<rparr>,
             s\<lparr>define_macros := define_macros s
                  @ [(''CUPY_CUB_VERSION_CODE'',
                      PInt (dec_val x * 100000 + dec_val y * 100 + dec_val z + dec_val n))]\<rparr>))"
proof (intro impI conjI)
  assume probe: "build_and_run w cc cub_source [] (include_dirs s) []
                   (Some (define_macros s)) [] (fs st) = (Inl e, f)"
    and git: "subprocess_run w ''git describe --tags''
                (os_path_join (source_root w) ''third_party/cccl'') = Inr a"
    and rc: "returncode a = 0" and dec: "decode (stdout a) = Inr t"
    and nums: "is_number x \<and> is_number y \<and> is_number z \<and> is_number n"
  have from_git: "cub_version_from_git w e = cub_version_from_tag (drop_last t)"
    using git rc dec by (simp add: cub_version_from_git_def)
  have check: "\<And>v. cub_version_from_tag (drop_last t) = Inr v \<Longrightarrow>
      check_cub_version w cc s st
        = (Inr True, st\<lparr>fs := f, cub_version := Some v\<rparr>,
           s\<lparr>define_macros := define_macros s @ [(''CUPY_CUB_VERSION_CODE'', PInt v)]\<rparr>)"
    using probe from_git by (simp add: check_cub_version_def cub_finish_def)
  {
    assume "drop_last t = x @ ''.'' @ y @ ''.'' @ z
              \<or> drop_last t = ''v'' @ x @ ''.'' @ y @ ''.'' @ z"
    then have "cub_version_from_tag (drop_last t)
                 = Inr (dec_val x * 100000 + dec_val y * 100 + dec_val z)"
      using nums cub_version_plain_tag [of x y z]
        cub_version_v_prefix [of x "''.'' @ y @ ''.'' @ z"]
      by auto
    then show "check_cub_version w cc s st
          = (Inr True,
             st\<lparr>fs := f,
                cub_version := Some (dec_val x * 100000 + dec_val y * 100 + dec_val z)\<rparr>,
             s\<lparr>define_macros := define_macros s
                  @ [(''CUPY_CUB_VERSION_CODE'',
                      PInt (dec_val x * 100000 + dec_val y * 100 + dec_val z))]\<rparr>)"
      by (rule check)
  }
  {
    assume "drop_last t = x @ ''.'' @ y @ ''.'' @ z @ ''-'' @ n @ ''-g'' @ h
              \<or> drop_last t = ''v'' @ x @ ''.'' @ y @ ''.'' @ z @ ''-'' @ n @ ''-g'' @ h"
    then have "cub_version_from_tag (drop_last t)
                 = Inr (dec_val x * 100000 + dec_val y * 100 + dec_val z + dec_val n)"
      using nums cub_version_commits_tag [of x y z n h]
        cub_version_v_prefix [of x "''.'' @ y @ ''.'' @ z @ ''-'' @ n @ ''-g'' @ h"]
      by auto
    then show "check_cub_version w cc s st
          = (Inr True,
             st\<lparr>fs := f,
                cub_version :=
                  Some (dec_val x * 100000 + dec_val y * 100 + dec_val z + dec_val n)\<rparr>,
             s\<lparr>define_macros := define_macros s
                  @ [(''CUPY_CUB_VERSION_CODE'',
                      PInt (dec_val x * 100000 + dec_val y * 100 + dec_val z + dec_val n))]\<rparr>)"
      by (rule check)
  }
qed

lemma sample_numbers:
  "is_number ''0''" "is_number ''1''" "is_number ''2''" "is_number ''8''"
  "dec_val ''0'' = 0" "dec_val ''1'' = 1" "dec_val ''2'' = 2" "dec_val ''8'' = 8"
  by (simp_all add: is_number_def is_digit_def dec_val_def digit_val_def)

theorem cub_version_from_git_tag_witness:
  "is_number ''0'' \<and> is_number ''1'' \<and> is_number ''2'' \<and> is_number ''8''
   \<and> drop_last (''2.1.0'' @ nl) = ''2'' @ ''.'' @ ''1'' @ ''.'' @ ''0''
   \<and> cub_version (fst (snd (check_cub_version (sample_world Map.empty [] 0 (''2.1.0'' @ nl))
                               broken_compiler sample_settings (module_init empty_fs))))
       = Some 200100
   \<and> drop_last (''v1.8.0-1-gdcbb288f'' @ nl)
       = ''v'' @ ''1'' @ ''.'' @ ''8'' @ ''.'' @ ''0'' @ ''-'' @ ''1'' @ ''-g'' @ ''dcbb288f''
   \<and> cub_version (fst (snd (check_cub_version
                               (sample_world Map.empty [] 0 (''v1.8.0-1-gdcbb288f'' @ nl))
                               broken_compiler sample_settings (module_init empty_fs))))
       = Some 100801"
proof -
  let ?st = "module_init empty_fs"
  let ?p = "sample_world Map.empty [] 0 (''2.1.0'' @ nl)"
  let ?q = "sample_world Map.empty [] 0 (''v1.8.0-1-gdcbb288f'' @ nl)"
  have d1: "drop_last (''2.1.0'' @ nl) = ''2'' @ ''.'' @ ''1'' @ ''.'' @ ''0''"
    by (simp add: drop_last_def nl_def)
  have d2: "drop_last (''v1.8.0-1-gdcbb288f'' @ nl)
       = ''v'' @ ''1'' @ ''.'' @ ''8'' @ ''.'' @ ''0'' @ ''-'' @ ''1'' @ ''-g'' @ ''dcbb288f''"
    by (simp add: drop_last_def nl_def)
  obtain f1 where b1: "build_and_run ?p broken_compiler cub_source []
      (include_dirs sample_settings) [] (Some (define_macros sample_settings)) [] (fs ?st)
      = (Inl (External ''compile failed''), f1)"
    using sample_probe_failure by blast
  obtain f2 where b2: "build_and_run ?q broken_compiler cub_source []
      (include_dirs sample_settings) [] (Some (define_macros sample_settings)) [] (fs ?st)
      = (Inl (External ''compile failed''), f2)"
    using sample_probe_failure by blast
  have g1: "subprocess_run ?p ''git describe --tags''
              (os_path_join (source_root ?p) ''third_party/cccl'')
            = Inr \<lparr>returncode = 0, stdout = ''2.1.0'' @ nl\<rparr>"
    by (simp add: sample_world_def)
  have g2: "subprocess_run ?q ''git describe --tags''
              (os_path_join (source_root ?q) ''third_party/cccl'')
            = Inr \<lparr>returncode = 0, stdout = ''v1.8.0-1-gdcbb288f'' @ nl\<rparr>"
    by (simp add: sample_world_def)
  have u1: "decode (''2.1.0'' @ nl) = Inr (''2.1.0'' @ nl)"
    by (simp add: decode_def nl_def)
  have u2: "decode (''v1.8.0-1-gdcbb288f'' @ nl) = Inr (''v1.8.0-1-gdcbb288f'' @ nl)"
    by (simp add: decode_def nl_def)
  have c1: "cub_version (fst (snd (check_cub_version ?p broken_compiler sample_settings ?st)))
              = Some 200100"
    using cub_version_from_git_tag [of ?p broken_compiler sample_settings ?st
        "External ''compile failed''" f1 "\<lparr>returncode = 0, stdout = ''2.1.0'' @ nl\<rparr>"
        "''2.1.0'' @ nl" "''2''" "''1''" "''0''" "''1''"] b1 g1 u1 d1 sample_numbers
    by simp
  have c2: "cub_version (fst (snd (check_cub_version ?q broken_compiler sample_settings ?st)))
              = Some 100801"
    using cub_version_from_git_tag [of ?q broken_compiler sample_settings ?st
        "External ''compile failed''" f2
        "\<lparr>returncode = 0, stdout = ''v1.8.0-1-gdcbb288f'' @ nl\<rparr>"
        "''v1.8.0-1-gdcbb288f'' @ nl" "''1''" "''8''" "''0''" "''1''" "''dcbb288f''"]
      b2 g2 u2 d2 sample_numbers
    by simp
  show ?thesis
    by (intro conjI sample_numbers(1-4) d1 d2 c1 c2)
qed

end
